theory Spec2Isabelle
  imports Complex_Main
begin

section \<open>The CAIGA companion: classifier, scorer, cooldowns and formatter\<close>

text \<open>
  A shallow embedding of \<^verbatim>\<open>companion/model_utils.py\<close>,
  \<^verbatim>\<open>companion/companion_server.py\<close>, \<^verbatim>\<open>companion/llm_wrapper.py\<close>,
  \<^verbatim>\<open>companion/tips_dataset.py\<close> and \<^verbatim>\<open>companion/rag.py\<close>.

  Conventions of the embedding:
  \<^item> A Python float is modelled as the real it denotes (type \<open>real\<close>). The classifier,
    the cooldown tests and the event boost as a function of its own compute on these
    reals exactly. The score of \<^verbatim>\<open>_select_tip\<close>, where rounding decides which
    candidate wins, is computed as the code computes it, the event boost included: every
    operation rounds its exact result to binary64.
    Python integers are \<open>int\<close>.
  \<^item> A JSON document read with \<^verbatim>\<open>d.get(key, default)\<close> is a record whose fields
    are options; \<open>None\<close> is the missing key and the default is written where the
    source writes it.
  \<^item> A dictionary is a map \<open>string \<rightharpoonup> 'v\<close>.
  \<^item> \<^verbatim>\<open>time.time()\<close> is an input: every function that reads the clock takes the
    value it reads as an argument.
  \<^item> A string is a \<open>char list\<close>; its characters are the code points below 256.
\<close>

subsection \<open>Python helpers\<close>

text \<open>\<^verbatim>\<open>d.get(k, default)\<close> on a dictionary.\<close>

definition dict_get :: "(string \<rightharpoonup> 'v) \<Rightarrow> string \<Rightarrow> 'v \<Rightarrow> 'v" where
  "dict_get d k dflt = (case d k of None \<Rightarrow> dflt | Some v \<Rightarrow> v)"

text \<open>
  Binary64 arithmetic. \<open>rnd x\<close> is the double nearest to \<open>x\<close>, a tie going to the
  double whose 53-bit significand is even; the sign is kept. The exponent range is not
  bounded: overflow to infinity and the subnormal numbers are not modelled.
  \<open>round_half_even\<close> rounds to the nearest integer, \<open>exponent2 x\<close> is the \<open>e\<close> with
  \<open>2\<^sup>e \<le> x < 2\<^sup>e\<^sup>+\<^sup>1\<close> for a positive \<open>x\<close>.
\<close>

definition round_half_even :: "real \<Rightarrow> int" where
  "round_half_even t =
     (let f = \<lfloor>t\<rfloor>; d = t - of_int f
      in if d < 1 / 2 then f else if 1 / 2 < d then f + 1 else if even f then f else f + 1)"

definition exponent2 :: "real \<Rightarrow> int" where
  "exponent2 x = \<lfloor>log 2 x\<rfloor>"

definition round_pos :: "real \<Rightarrow> real" where
  "round_pos x = (let u = 2 powi (exponent2 x - 52) in of_int (round_half_even (x / u)) * u)"

definition rnd :: "real \<Rightarrow> real" where
  "rnd x = (if x = 0 then 0 else if x < 0 then - round_pos (- x) else round_pos x)"

text \<open>
  The float operations \<^verbatim>\<open>a * b\<close>, \<^verbatim>\<open>a + b\<close>, \<^verbatim>\<open>a - b\<close> and \<^verbatim>\<open>a / b\<close>.
\<close>

definition fl_add :: "real \<Rightarrow> real \<Rightarrow> real" where
  "fl_add a b = rnd (a + b)"

definition fl_mul :: "real \<Rightarrow> real \<Rightarrow> real" where
  "fl_mul a b = rnd (a * b)"

definition fl_sub :: "real \<Rightarrow> real \<Rightarrow> real" where
  "fl_sub a b = rnd (a - b)"

definition fl_div :: "real \<Rightarrow> real \<Rightarrow> real" where
  "fl_div a b = rnd (a / b)"

text \<open>\<^verbatim>\<open>s.lower()\<close>: the ASCII capitals move to their small letters.\<close>

definition lower_char :: "char \<Rightarrow> char" where
  "lower_char c =
     (let n = (of_char c :: nat) in if 65 \<le> n \<and> n \<le> 90 then char_of (n + 32) else c)"

definition lower :: "string \<Rightarrow> string" where
  "lower s = map lower_char s"

text \<open>\<^verbatim>\<open>s.startswith(w)\<close> and the substring test \<^verbatim>\<open>w in s\<close>.\<close>

fun startswith :: "string \<Rightarrow> string \<Rightarrow> bool" where
  "startswith s [] = True"
| "startswith [] (c # w) = False"
| "startswith (d # s) (c # w) = (d = c \<and> startswith s w)"

fun str_in :: "string \<Rightarrow> string \<Rightarrow> bool" where
  "str_in w [] = (w = [])"
| "str_in w (c # s) = (startswith (c # s) w \<or> str_in w s)"

subsection \<open>Snapshots and events (the documents of the state source)\<close>

record event =
  ev_type :: "string option"
  ev_timestamp :: "real option"

record snapshot =
  timestamp :: "string option"
  health :: "real option"
  hunger :: "int option"
  isNight :: "bool option"
  logs :: "int option"
  pos_y :: "real option"
  blockUnderCrosshair :: "string option"

text \<open>\<^verbatim>\<open>e.get("type", "")\<close>\<close>

definition type_of :: "event \<Rightarrow> string" where
  "type_of e = (case ev_type e of None \<Rightarrow> [] | Some t \<Rightarrow> t)"

subsection \<open>\<^verbatim>\<open>ModelUtils._rules\<close>\<close>

type_synonym distribution = "(string \<times> real) list"

definition labels :: "string list" where
  "labels = [''low_health'', ''low_food'', ''night_risk'', ''mining_mode'',
             ''near_resource'', ''exploring'', ''combat'', ''building'']"

text \<open>
  \<^verbatim>\<open>dist[k] = v\<close> on a dictionary kept in insertion order: an existing key keeps its
  place, a new key goes last.
\<close>

fun dict_set :: "distribution \<Rightarrow> string \<Rightarrow> real \<Rightarrow> distribution" where
  "dict_set [] k v = [(k, v)]"
| "dict_set ((k', v') # d) k v = (if k' = k then (k, v) # d else (k', v') # dict_set d k v)"

text \<open>
  The loop \<^verbatim>\<open>for l in labels: if l != label: dist[l] = rem\<close>.
\<close>

fun spread :: "string list \<Rightarrow> string \<Rightarrow> real \<Rightarrow> distribution \<Rightarrow> distribution" where
  "spread [] label rem distr = distr"
| "spread (l # ls) label rem distr =
     spread ls label rem (if l \<noteq> label then dict_set distr l rem else distr)"

text \<open>The priority ladder: the first \<^verbatim>\<open>if\<close>/\<^verbatim>\<open>elif\<close> branch that holds decides.\<close>

definition ladder :: "snapshot \<Rightarrow> event list \<Rightarrow> string \<times> real" where
  "ladder state events =
     (let health = (case health state of None \<Rightarrow> 20 | Some h \<Rightarrow> h);
          hunger = (case hunger state of None \<Rightarrow> 20 | Some h \<Rightarrow> h);
          is_night = (case isNight state of None \<Rightarrow> False | Some b \<Rightarrow> b);
          logs = (case logs state of None \<Rightarrow> 0 | Some n \<Rightarrow> n);
          y = (case pos_y state of None \<Rightarrow> 64 | Some v \<Rightarrow> v);
          event_types = set (map type_of events);
          mine_attempt = (''mine_attempt'' \<in> event_types \<or> ''block_broken'' \<in> event_types);
          took_damage = (''damage_taken'' \<in> event_types);
          combat_active = (''combat_start'' \<in> event_types \<or> ''mob_killed'' \<in> event_types);
          died_recently = (''player_death'' \<in> event_types);
          blk = lower (case blockUnderCrosshair state of None \<Rightarrow> [] | Some b \<Rightarrow> b);
          near_resource = (str_in ''ore'' blk \<or> str_in ''log'' blk \<or> str_in ''crop'' blk)
      in if died_recently then (''low_health'', 0.98)
         else if took_damage \<and> health < 10 then (''low_health'', 0.95)
         else if combat_active then (''combat'', 0.90)
         else if health < 8 then (''low_health'', 0.95)
         else if hunger < 6 then (''low_food'', 0.90)
         else if is_night \<and> logs < 2 then (''night_risk'', 0.85)
         else if mine_attempt \<or> y \<le> 32 then (''mining_mode'', 0.75)
         else if near_resource then (''near_resource'', 0.70)
         else (''exploring'', 0.60))"

definition rules :: "snapshot \<Rightarrow> event list \<Rightarrow> string \<times> real \<times> distribution" where
  "rules state events =
     (let (label, conf) = ladder state events;
          distr = map (\<lambda>l. (l, 0)) labels;
          distr = dict_set distr label conf;
          rem = (1 - conf) / (real (length labels) - 1);
          distr = spread labels label rem distr
      in (label, conf, distr))"

subsection \<open>\<^verbatim>\<open>CompanionServer._calculate_event_boost\<close>\<close>

definition relevance_map :: "string \<rightharpoonup> string list" where
  "relevance_map = map_of
     [(''low_health'', [''damage_taken'', ''player_death'', ''combat_start'']),
      (''low_food'', [''hunger_depleted'', ''sprint_fail'']),
      (''combat'', [''damage_taken'', ''combat_start'', ''mob_killed'', ''player_death'']),
      (''mining_mode'', [''mine_attempt'', ''block_broken'', ''ore_found'']),
      (''night_risk'', [''time_sunset'', ''mob_spawn_nearby'']),
      (''near_resource'', [''block_targeted'', ''ore_spotted'']),
      (''exploring'', [''biome_changed'', ''structure_found'', ''coordinates_far'']),
      (''building'', [''block_placed'', ''crafting_table_used'']),
      (''enchanting'', [''enchant_attempt'', ''exp_gained'']),
      (''farming'', [''crop_harvested'', ''animal_bred'']),
      (''nether'', [''dimension_nether'', ''fire_damage'', ''piglin_aggro''])]"

definition calculate_event_boost :: "string \<Rightarrow> event list \<Rightarrow> real" where
  "calculate_event_boost label events =
     (if events = [] then 1
      else
        let event_types = map type_of events;
            event_count = length events;
            relevant_events = dict_get relevance_map label [];
            matches = (\<Sum>et \<leftarrow> filter (\<lambda>et. et \<in> set relevant_events) event_types. (1::nat))
        in if matches = 0 then 1
           else
             let boost = 1 + (real matches / real event_count) * 2
             in min boost 3)"

text \<open>
  The same function with every operation in binary64: the value that \<^verbatim>\<open>_select_tip\<close>
  receives and multiplies into the score.
\<close>

definition calculate_event_boost_fl :: "string \<Rightarrow> event list \<Rightarrow> real" where
  "calculate_event_boost_fl label events =
     (if events = [] then 1
      else
        let event_types = map type_of events;
            event_count = length events;
            relevant_events = dict_get relevance_map label [];
            matches = (\<Sum>et \<leftarrow> filter (\<lambda>et. et \<in> set relevant_events) event_types. (1::nat))
        in if matches = 0 then 1
           else
             let boost = fl_add 1 (fl_mul (fl_div (real matches) (real event_count)) 2)
             in min boost 3)"

subsection \<open>\<^verbatim>\<open>companion/llm_wrapper.py\<close>\<close>

datatype py_error = ValueError | OSError

text \<open>
  \<^verbatim>\<open>str.isspace\<close> on the code points below 256, and the \<^verbatim>\<open>strip\<close> family.
\<close>

definition isspace :: "char \<Rightarrow> bool" where
  "isspace c = ((of_char c :: nat) \<in> {9, 10, 11, 12, 13, 28, 29, 30, 31, 32, 133, 160})"

definition lstrip :: "string \<Rightarrow> string" where
  "lstrip s = dropWhile isspace s"

definition rstrip :: "string \<Rightarrow> string" where
  "rstrip s = rev (dropWhile isspace (rev s))"

definition strip :: "string \<Rightarrow> string" where
  "strip s = rstrip (lstrip s)"

text \<open>The slice \<^verbatim>\<open>text[:n]\<close>: a negative \<open>n\<close> counts from the end.\<close>

definition slice_to :: "string \<Rightarrow> int \<Rightarrow> string" where
  "slice_to s n = (if 0 \<le> n then take (nat n) s else take (length s - nat (- n)) s)"

text \<open>\<^verbatim>\<open>sep.join(xs)\<close>\<close>

fun join :: "string \<Rightarrow> string list \<Rightarrow> string" where
  "join sep [] = []"
| "join sep [x] = x"
| "join sep (x # y # ys) = x @ sep @ join sep (y # ys)"

text \<open>
  \<^verbatim>\<open>s.replace(old, new)\<close>, every occurrence from the left, without overlap. The
  source only calls it with the non-empty \<^verbatim>\<open>"{recipe}"\<close>; for an empty \<open>old\<close> the
  model returns \<open>s\<close>.
\<close>

function replace :: "string \<Rightarrow> string \<Rightarrow> string \<Rightarrow> string" where
  "replace [] old new = []"
| "replace (c # s) old new =
     (if old \<noteq> [] \<and> startswith (c # s) old
      then new @ replace (drop (length old) (c # s)) old new
      else c # replace s old new)"
  by pat_completeness auto
termination
  by (relation "measure (\<lambda>(s, old, new). length s)") auto

definition trim :: "string \<Rightarrow> int \<Rightarrow> string" where
  "trim text0 max_length =
     (let text1 = strip text0
      in if max_length > 0 \<and> int (length text1) > max_length
         then rstrip (slice_to text1 (max_length - 3)) @ ''...''
         else text1)"

text \<open>
  The environment of \<^verbatim>\<open>_gemini_config\<close>. A numeric variable is unset, holds a string
  that \<^verbatim>\<open>float()\<close> or \<^verbatim>\<open>int()\<close> rejects, or holds a number.
\<close>

datatype 'a env_number = Unset | NotNumeric | Numeric 'a

record gemini_env =
  GEMINI_ENABLED :: "string option"
  GEMINI_API_KEY :: "string option"
  GEMINI_MODEL :: "string option"
  GEMINI_TEMPERATURE :: "real env_number"
  GEMINI_MAX_TOKENS :: "int env_number"

record gemini_settings =
  api_key :: string
  model :: string
  temperature :: real
  max_tokens :: int

definition getenv :: "string option \<Rightarrow> string \<Rightarrow> string" where
  "getenv v dflt = (case v of None \<Rightarrow> dflt | Some x \<Rightarrow> x)"

text \<open>
  \<^verbatim>\<open>_gemini_config\<close>: the two numbers are parsed before \<^verbatim>\<open>enabled\<close> is looked at,
  so a malformed one raises \<^verbatim>\<open>ValueError\<close> whatever the other variables hold.
  \<open>Inr None\<close> is the dictionary with \<^verbatim>\<open>"enabled": False\<close>.
\<close>

definition gemini_config :: "gemini_env \<Rightarrow> py_error + gemini_settings option" where
  "gemini_config env =
     (let enabled = (lower (getenv (GEMINI_ENABLED env) ''false'') = ''true'');
          key = strip (getenv (GEMINI_API_KEY env) []);
          mdl = getenv (GEMINI_MODEL env) ''gemini-1.5-flash''
      in case GEMINI_TEMPERATURE env of
           NotNumeric \<Rightarrow> Inl ValueError
         | Unset \<Rightarrow>
             (case GEMINI_MAX_TOKENS env of
                NotNumeric \<Rightarrow> Inl ValueError
              | Unset \<Rightarrow>
                  (if \<not> enabled then Inr None else if key = [] then Inr None
                   else Inr (Some \<lparr>api_key = key, model = mdl, temperature = 0.7, max_tokens = 120\<rparr>))
              | Numeric m \<Rightarrow>
                  (if \<not> enabled then Inr None else if key = [] then Inr None
                   else Inr (Some \<lparr>api_key = key, model = mdl, temperature = 0.7, max_tokens = m\<rparr>)))
         | Numeric t \<Rightarrow>
             (case GEMINI_MAX_TOKENS env of
                NotNumeric \<Rightarrow> Inl ValueError
              | Unset \<Rightarrow>
                  (if \<not> enabled then Inr None else if key = [] then Inr None
                   else Inr (Some \<lparr>api_key = key, model = mdl, temperature = t, max_tokens = 120\<rparr>))
              | Numeric m \<Rightarrow>
                  (if \<not> enabled then Inr None else if key = [] then Inr None
                   else Inr (Some \<lparr>api_key = key, model = mdl, temperature = t, max_tokens = m\<rparr>))))"

text \<open>
  The non-LLM fallback, which the source writes out three times: when Gemini is not
  enabled, when its SDK is not installed, and in the \<^verbatim>\<open>except\<close> branch of the call.
\<close>

definition stub :: "string \<Rightarrow> string list \<Rightarrow> int \<Rightarrow> string" where
  "stub query docs max_length =
     (if docs = [] then trim query max_length
      else
        let joined = join '' '' (take 3 docs)
        in trim (query @ '' (Context: '' @ joined @ '')'') max_length)"

definition base_system :: string where
  "base_system =
     ''You are a helpful Minecraft in-game assistant. '' @
     ''Write one short, factual tip grounded ONLY in the provided context. '' @
     ''Avoid spoilers beyond the context. Keep it under 1-2 sentences.''"

text \<open>
  \<^verbatim>\<open>paraphrase_with_context\<close>. The Gemini SDK is opaque: \<open>sdk\<close> says whether its
  import succeeds, and \<open>gemini settings system user\<close> is what \<^verbatim>\<open>_extract_text\<close> reads
  from the response, \<open>None\<close> when anything in the \<^verbatim>\<open>try\<close> block raised.
\<close>

definition paraphrase_with_context ::
  "gemini_env \<Rightarrow> bool \<Rightarrow> (gemini_settings \<Rightarrow> string \<Rightarrow> string \<Rightarrow> string option) \<Rightarrow>
   string \<Rightarrow> string list \<Rightarrow> int \<Rightarrow> string option \<Rightarrow> py_error + string" where
  "paraphrase_with_context env sdk gemini query docs max_length system_prompt =
     (case gemini_config env of
        Inl err \<Rightarrow> Inl err
      | Inr None \<Rightarrow> Inr (stub query docs max_length)
      | Inr (Some settings) \<Rightarrow>
          if \<not> sdk then Inr (stub query docs max_length)
          else
            let sys = (case system_prompt of
                         None \<Rightarrow> base_system
                       | Some p \<Rightarrow> if p = [] then base_system else base_system @ [CHR 0x0A] @ p);
                context_block = (if docs = [] then [] else join [CHR 0x0A, CHR 0x0A] (take 3 docs));
                user_msg = ''Context:'' @ [CHR 0x0A] @ context_block @ [CHR 0x0A, CHR 0x0A] @
                           ''Tip request: '' @ query @ [CHR 0x0A, CHR 0x0A] @
                           ''Return only the tip text, no preamble.''
            in (case gemini settings sys user_msg of
                  None \<Rightarrow> Inr (stub query docs max_length)
                | Some txt \<Rightarrow>
                    if txt = [] then Inr (stub query docs max_length)
                    else Inr (trim txt max_length)))"

text \<open>\<^verbatim>\<open>RAG.retrieve\<close> of \<^verbatim>\<open>companion/rag.py\<close> returns the empty list.\<close>

definition retrieve :: "string \<Rightarrow> nat \<Rightarrow> string list" where
  "retrieve query top_k = []"

text \<open>
  \<^verbatim>\<open>paraphrase_tip_with_recipe\<close>; \<open>rag\<close> says whether a RAG instance exists.
\<close>

definition paraphrase_tip_with_recipe ::
  "gemini_env \<Rightarrow> bool \<Rightarrow> (gemini_settings \<Rightarrow> string \<Rightarrow> string \<Rightarrow> string option) \<Rightarrow>
   string \<Rightarrow> string \<Rightarrow> bool \<Rightarrow> int \<Rightarrow> py_error + string" where
  "paraphrase_tip_with_recipe env sdk gemini tip_text recipe_query rag max_length =
     (if \<not> rag then Inr (replace tip_text ''{recipe}'' ''[recipe not available]'')
      else
        let docs = retrieve recipe_query 3
        in case paraphrase_with_context env sdk gemini recipe_query docs max_length None of
             Inl err \<Rightarrow> Inl err
           | Inr recipe_info \<Rightarrow> Inr (replace tip_text ''{recipe}'' recipe_info))"

subsection \<open>\<^verbatim>\<open>companion/tips_dataset.py\<close>: the candidate table\<close>

record candidate =
  tip_text :: string
  spoiler_level :: int
  priority :: real

definition get_tips_for_label :: "(string \<rightharpoonup> candidate list) \<Rightarrow> string \<Rightarrow> candidate list" where
  "get_tips_for_label tips label = dict_get tips label []"

subsection \<open>\<^verbatim>\<open>companion/companion_server.py\<close>: configuration and state\<close>

record config =
  CONF_THRESHOLD :: real
  MAX_SPOILER_LEVEL :: int
  GLOBAL_COOLDOWN_SECONDS :: int
  LABEL_COOLDOWN_SECONDS :: int
  TIP_COOLDOWN_SECONDS :: int

text \<open>The defaults of \<^verbatim>\<open>_load_config\<close>, used when the environment sets nothing.\<close>

definition default_config :: config where
  "default_config =
     \<lparr>CONF_THRESHOLD = 0.6, MAX_SPOILER_LEVEL = 1, GLOBAL_COOLDOWN_SECONDS = 15,
      LABEL_COOLDOWN_SECONDS = 30, TIP_COOLDOWN_SECONDS = 180\<rparr>"

text \<open>A row of \<^verbatim>\<open>decisions.csv\<close> and a row of \<^verbatim>\<open>feedback.csv\<close>.\<close>

record decision =
  d_timestamp :: real
  d_label :: string
  d_confidence :: real
  d_tip :: string
  d_used_rag :: int
  d_state_ref :: string
  d_cooldowns :: "string \<rightharpoonup> real"

record feedback_row =
  f_timestamp :: real
  f_label :: string
  f_accepted :: bool
  f_feedback_time :: real

text \<open>
  A field of the state document as \<^verbatim>\<open>json.load\<close> returns it: the key is absent, or it
  holds a dictionary from strings to numbers, or it holds anything else (a number,
  \<^verbatim>\<open>null\<close>, a string, a list, a dictionary with other values).
\<close>

datatype 'v json_field = Absent | Dict "string \<rightharpoonup> 'v" | IllTyped

text \<open>The JSON object of \<^verbatim>\<open>companion_state.json\<close>.\<close>

record state_doc =
  doc_label_last_tip :: "real json_field"
  doc_tip_last_shown :: "real json_field"
  doc_label_acceptance :: "int json_field"
  doc_label_tips_posted :: "int json_field"
  doc_last_save :: "real option"

text \<open>
  What the state file holds: a JSON object, or something \<^verbatim>\<open>_load_state\<close> cannot read
  as one (bytes that \<^verbatim>\<open>json.load\<close> rejects, such as the prefix a failed write leaves, or
  a JSON value that is not an object).
\<close>

datatype file_content = Document state_doc | Garbage

text \<open>
  The outcomes of writing the state file: the document is written; \<^verbatim>\<open>open(path, "w")\<close>
  raises and the file keeps what it held; or \<^verbatim>\<open>open\<close> has truncated the file and the
  write raises after that.
\<close>

datatype write_outcome = Written | OpenFails | WriteFails

text \<open>
  The attributes of \<^verbatim>\<open>CompanionServer\<close> that the decision path reads or writes,
  followed by the three files it writes: the rows appended to the two CSV files and the
  successive contents of the state file, the newest first. \<open>last_state = None\<close> stands
  for every value that \<^verbatim>\<open>not self.last_state\<close> accepts.
\<close>

record server =
  last_state :: "snapshot option"
  recent_events :: "event list"
  last_tip :: "string option"
  last_tip_timestamp :: real
  label_last_tip :: "string \<rightharpoonup> real"
  tip_last_shown :: "string \<rightharpoonup> real"
  label_tips_posted :: "string \<rightharpoonup> int"
  label_acceptance :: "string \<rightharpoonup> int"
  tips :: "string \<rightharpoonup> candidate list"
  rag :: bool
  decisions_csv :: "decision list"
  feedback_csv :: "feedback_row list"
  state_file :: "file_content list"

text \<open>
  What lies outside the server: the configuration, the learned model (\<open>None\<close> when it
  is not loaded or its prediction raises), the dispatch sink (the HTTP status of
  \<^verbatim>\<open>POST /tip\<close>, \<open>None\<close> when the request raises), the Gemini environment,
  whether the CSV files can be written, and the outcome of writing the state file.
\<close>

record world =
  cfg :: config
  learned :: "snapshot \<Rightarrow> (string \<times> real \<times> distribution) option"
  sink :: "string \<Rightarrow> nat option"
  genv :: gemini_env
  sdk_installed :: bool
  gemini_sdk :: "gemini_settings \<Rightarrow> string \<Rightarrow> string \<Rightarrow> string option"
  csv_writable :: bool
  state_write :: write_outcome

text \<open>The clock readings of one \<^verbatim>\<open>_process_state\<close> call, in the order they are taken.\<close>

record clock =
  t_select :: real
  t_check :: real
  t_post :: real
  t_save :: real

subsection \<open>\<^verbatim>\<open>ModelUtils.predict_label_and_confidence\<close>\<close>

definition predict_label_and_confidence ::
  "(snapshot \<Rightarrow> (string \<times> real \<times> distribution) option) \<Rightarrow> snapshot \<Rightarrow> event list \<Rightarrow>
   string \<times> real \<times> distribution" where
  "predict_label_and_confidence mdl state events =
     (case mdl state of Some r \<Rightarrow> r | None \<Rightarrow> rules state events)"

subsection \<open>Tip selection\<close>

text \<open>
  \<^verbatim>\<open>scored.sort(key=lambda x: x[0], reverse=True)\<close>: a stable sort into descending
  order of the key, so that elements with equal keys keep the order they had.
\<close>

fun insort_desc :: "real \<times> string \<Rightarrow> (real \<times> string) list \<Rightarrow> (real \<times> string) list" where
  "insort_desc x [] = [x]"
| "insort_desc x (y # ys) = (if fst x < fst y then y # insort_desc x ys else x # y # ys)"

definition sort_desc :: "(real \<times> string) list \<Rightarrow> (real \<times> string) list" where
  "sort_desc xs = foldr insort_desc xs []"

text \<open>The candidates that pass the filter of \<^verbatim>\<open>_select_tip\<close>.\<close>

definition filter_candidates :: "config \<Rightarrow> server \<Rightarrow> real \<Rightarrow> candidate list \<Rightarrow> candidate list" where
  "filter_candidates c s now all_tips =
     (let tip_cooldown = real_of_int (TIP_COOLDOWN_SECONDS c)
      in filter (\<lambda>t. spoiler_level t \<le> MAX_SPOILER_LEVEL c \<and>
                      now - dict_get (tip_last_shown s) (tip_text t) 0 \<ge> tip_cooldown) all_tips)"

text \<open>
  \<^verbatim>\<open>_select_tip\<close>. The event boost, the time factor and the score are computed in
  binary64, one rounding for each operation, the product from the left as Python
  evaluates it.
\<close>

definition select_tip ::
  "config \<Rightarrow> server \<Rightarrow> real \<Rightarrow> string \<Rightarrow> real \<Rightarrow> event list \<Rightarrow> string option" where
  "select_tip c s now label conf events =
     (let all_tips = get_tips_for_label (tips s) label;
          cand = filter_candidates c s now all_tips
      in if cand = [] then None
         else
           let event_boost = calculate_event_boost_fl label events;
               last = dict_get (label_last_tip s) label 0;
               time_since = max 0 (fl_sub now last);
               time_factor = fl_sub 1 (fl_div (min time_since 60) 120);
               scored = map (\<lambda>c. (fl_mul (fl_mul (fl_mul conf (priority c)) event_boost)
                                      (fl_sub 1 (fl_mul 0.5 time_factor)),
                                    tip_text c)) cand;
               scored = sort_desc scored
           in case scored of [] \<Rightarrow> None | x # _ \<Rightarrow> Some (snd x))"

subsection \<open>Cooldowns, dispatch and persistence\<close>

definition check_cooldowns :: "config \<Rightarrow> server \<Rightarrow> real \<Rightarrow> string \<Rightarrow> bool" where
  "check_cooldowns c s now label =
     (if now - last_tip_timestamp s < real_of_int (GLOBAL_COOLDOWN_SECONDS c) then False
      else if now - dict_get (label_last_tip s) label 0 < real_of_int (LABEL_COOLDOWN_SECONDS c)
      then False
      else True)"

definition post_tip :: "(string \<Rightarrow> nat option) \<Rightarrow> string \<Rightarrow> bool" where
  "post_tip snk message = (case snk message of None \<Rightarrow> False | Some status \<Rightarrow> status = 200)"

text \<open>
  \<^verbatim>\<open>_save_state\<close>. \<^verbatim>\<open>open(path, "w")\<close> truncates the file before \<^verbatim>\<open>json.dump\<close>
  writes to it, so a write that fails after the file was opened leaves a proper prefix
  of the document, which is not JSON, in place of what the file held. Either failure is
  caught and logged.
\<close>

definition save_state :: "world \<Rightarrow> real \<Rightarrow> server \<Rightarrow> server" where
  "save_state w now s =
     (let d = \<lparr>doc_label_last_tip = Dict (label_last_tip s),
               doc_tip_last_shown = Dict (tip_last_shown s),
               doc_label_acceptance = Dict (label_acceptance s),
               doc_label_tips_posted = Dict (label_tips_posted s),
               doc_last_save = Some now\<rparr>
      in case state_write w of
           Written \<Rightarrow> s\<lparr>state_file := Document d # state_file s\<rparr>
         | OpenFails \<Rightarrow> s
         | WriteFails \<Rightarrow> s\<lparr>state_file := Garbage # state_file s\<rparr>)"




text \<open>
  \<^verbatim>\<open>CompanionServer.__init__\<close>: the attributes as the constructor sets them
  (\<open>new_server\<close>, with no file written yet), then \<^verbatim>\<open>_load_state\<close>.
\<close>

definition new_server :: "(string \<rightharpoonup> candidate list) \<Rightarrow> bool \<Rightarrow> server" where
  "new_server tps rg =
     \<lparr>last_state = None, recent_events = [], last_tip = None, last_tip_timestamp = 0,
      label_last_tip = Map.empty, tip_last_shown = Map.empty, label_tips_posted = Map.empty,
      label_acceptance = Map.empty, tips = tps, rag = rg, decisions_csv = [],
      feedback_csv = [], state_file = []\<rparr>"


text \<open>
  \<^verbatim>\<open>_after_post\<close>. \<^verbatim>\<open>_append_csv\<close> opens the file outside any \<^verbatim>\<open>try\<close>: when the
  file cannot be written the call raises after the attributes were set.
\<close>

definition after_post ::
  "world \<Rightarrow> real \<Rightarrow> real \<Rightarrow> string \<Rightarrow> string \<Rightarrow> int \<Rightarrow> string \<Rightarrow> server \<Rightarrow>
   py_error option \<times> server" where
  "after_post w now now_save label tip used_rag state_ref s =
     (let s1 = s\<lparr>last_tip := Some tip,
                 last_tip_timestamp := now,
                 label_last_tip := (label_last_tip s)(label \<mapsto> now),
                 tip_last_shown := (tip_last_shown s)(tip \<mapsto> now),
                 label_tips_posted :=
                   (label_tips_posted s)(label \<mapsto> dict_get (label_tips_posted s) label 0 + 1)\<rparr>;
          row = \<lparr>d_timestamp = now, d_label = label, d_confidence = 1, d_tip = tip,
                 d_used_rag = used_rag, d_state_ref = state_ref,
                 d_cooldowns = label_last_tip s1\<rparr>
      in if \<not> csv_writable w then (Some OSError, s1)
         else (None, save_state w now_save (s1\<lparr>decisions_csv := decisions_csv s1 @ [row]\<rparr>)))"

text \<open>
  \<^verbatim>\<open>_process_state\<close>. The result pairs the exception that leaves the call, if any,
  with the server as the call leaves it.
\<close>

definition process_state :: "world \<Rightarrow> clock \<Rightarrow> server \<Rightarrow> py_error option \<times> server" where
  "process_state w clk s =
     (case last_state s of
        None \<Rightarrow> (None, s)
      | Some state \<Rightarrow>
          let (label, conf, _) = predict_label_and_confidence (learned w) state (recent_events s)
          in if conf < CONF_THRESHOLD (cfg w) then (None, s)
             else
               (case select_tip (cfg w) s (t_select clk) label conf (recent_events s) of
                  None \<Rightarrow> (None, s)
                | Some tip \<Rightarrow>
                    if tip = [] then (None, s)
                    else if \<not> check_cooldowns (cfg w) s (t_check clk) label then (None, s)
                    else
                      let state_ref = (case timestamp state of None \<Rightarrow> ''unknown'' | Some r \<Rightarrow> r)
                      in if str_in ''{recipe}'' tip
                         then
                           (case paraphrase_tip_with_recipe (genv w) (sdk_installed w)
                                   (gemini_sdk w) tip label (rag s) 150 of
                              Inl err \<Rightarrow> (Some err, s)
                            | Inr tip' \<Rightarrow>
                                if post_tip (sink w) tip'
                                then after_post w (t_post clk) (t_save clk) label tip' 1 state_ref s
                                else (None, s))
                         else
                           if post_tip (sink w) tip
                           then after_post w (t_post clk) (t_save clk) label tip 0 state_ref s
                           else (None, s)))"


subsection \<open>The cycle states of the design (section 4.6 of the specification)\<close>

datatype cycle = Idle | Suppressed | Rejected | DispatchFailed | Dispatched

text \<open>
  The name the design gives to the path one \<^verbatim>\<open>_process_state\<close> call takes:
  \<open>Suppressed\<close> when the confidence is below the threshold or the scorer has no
  winner, \<open>Rejected\<close> when there is a winner and the admission check fails,
  \<open>Dispatched\<close> or \<open>DispatchFailed\<close> by the answer of the sink. The source returns
  nothing on any of these paths; this function only names them.
\<close>

definition cycle_of :: "world \<Rightarrow> clock \<Rightarrow> server \<Rightarrow> py_error + cycle" where
  "cycle_of w clk s =
     (case last_state s of
        None \<Rightarrow> Inr Idle
      | Some state \<Rightarrow>
          let (label, conf, _) = predict_label_and_confidence (learned w) state (recent_events s)
          in if conf < CONF_THRESHOLD (cfg w) then Inr Suppressed
             else
               (case select_tip (cfg w) s (t_select clk) label conf (recent_events s) of
                  None \<Rightarrow> Inr Suppressed
                | Some tip \<Rightarrow>
                    if tip = [] then Inr Suppressed
                    else if \<not> check_cooldowns (cfg w) s (t_check clk) label then Inr Rejected
                    else if str_in ''{recipe}'' tip
                    then
                      (case paraphrase_tip_with_recipe (genv w) (sdk_installed w)
                              (gemini_sdk w) tip label (rag s) 150 of
                         Inl err \<Rightarrow> Inl err
                       | Inr tip' \<Rightarrow>
                           Inr (if post_tip (sink w) tip' then Dispatched else DispatchFailed))
                    else Inr (if post_tip (sink w) tip then Dispatched else DispatchFailed)))"

subsection \<open>Notions used to state the properties\<close>

text \<open>An event of the given type is in the window.\<close>

definition has_event :: "string \<Rightarrow> event list \<Rightarrow> bool" where
  "has_event t events = (t \<in> set (map type_of events))"

text \<open>The label and the confidence of a classification result.\<close>

definition label_conf :: "string \<times> real \<times> distribution \<Rightarrow> string \<times> real" where
  "label_conf r = (fst r, fst (snd r))"

text \<open>The number of events of the window whose type is relevant to the label.\<close>

definition relevant_matches :: "string \<Rightarrow> event list \<Rightarrow> nat" where
  "relevant_matches label events =
     length (filter (\<lambda>e. type_of e \<in> set (dict_get relevance_map label [])) events)"

text \<open>
  The state document holds the per-label and per-candidate ledgers and the two counters
  of the server.
\<close>

definition documents :: "state_doc \<Rightarrow> server \<Rightarrow> bool" where
  "documents d s =
     (doc_label_last_tip d = Dict (label_last_tip s) \<and>
      doc_tip_last_shown d = Dict (tip_last_shown s) \<and>
      doc_label_acceptance d = Dict (label_acceptance s) \<and>
      doc_label_tips_posted d = Dict (label_tips_posted s))"

text \<open>
  The two factors of the score of \<^verbatim>\<open>_select_tip\<close> that do not depend on the candidate
  besides confidence and boost: the time weight \<^verbatim>\<open>1.0 - 0.5 * time_factor\<close>, and the
  score as a function of the priority, each in binary64 as the code computes it.
\<close>

definition time_weight :: "real \<Rightarrow> real \<Rightarrow> real" where
  "time_weight now prev =
     fl_sub 1 (fl_mul 0.5 (fl_sub 1 (fl_div (min (max 0 (fl_sub now prev)) 60) 120)))"

definition composite_score :: "real \<Rightarrow> real \<Rightarrow> real \<Rightarrow> real \<Rightarrow> real" where
  "composite_score conf boost w p = fl_mul (fl_mul (fl_mul conf p) boost) w"

subsection \<open>Concrete inputs\<close>

definition ev :: "string \<Rightarrow> event" where
  "ev t = \<lparr>ev_type = Some t, ev_timestamp = None\<rparr>"

definition snap_hurt :: snapshot where
  "snap_hurt = \<lparr>timestamp = None, health = Some 5, hunger = Some 20, isNight = None,
     logs = None, pos_y = None, blockUnderCrosshair = None\<rparr>"

definition snap_quiet :: snapshot where
  "snap_quiet = \<lparr>timestamp = None, health = Some 20, hunger = Some 20, isNight = Some False,
     logs = Some 5, pos_y = Some 64, blockUnderCrosshair = Some ''stone''\<rparr>"

definition env_unset :: gemini_env where
  "env_unset = \<lparr>GEMINI_ENABLED = None, GEMINI_API_KEY = None, GEMINI_MODEL = None,
     GEMINI_TEMPERATURE = Unset, GEMINI_MAX_TOKENS = Unset\<rparr>"

definition world_ok :: world where
  "world_ok = \<lparr>cfg = default_config, learned = (\<lambda>_. None), sink = (\<lambda>_. Some 200),
     genv = env_unset, sdk_installed = False, gemini_sdk = (\<lambda>_ _ _. None),
     csv_writable = True, state_write = Written\<rparr>"

text \<open>The candidate of \<^verbatim>\<open>TipsDataset._stub\<close> for \<^verbatim>\<open>exploring\<close>, and two more.\<close>

definition tip_explore :: candidate where
  "tip_explore = \<lparr>tip_text = ''Exploring? Mark your base coordinates.'', spoiler_level = 0,
     priority = 5\<rparr>"

definition tip_second :: candidate where
  "tip_second = \<lparr>tip_text = ''Climb a hill to get your bearings.'', spoiler_level = 0,
     priority = 5\<rparr>"

definition tip_recipe :: candidate where
  "tip_recipe = \<lparr>tip_text = ''Try crafting: {recipe}'', spoiler_level = 0, priority = 5\<rparr>"

text \<open>
  A server that has just started without a state file, holds the given candidates for
  \<^verbatim>\<open>exploring\<close> and has polled the quiet snapshot with no events.
\<close>

definition server_fresh :: "candidate list \<Rightarrow> server" where
  "server_fresh cs =
     (new_server [''exploring'' \<mapsto> cs] False)\<lparr>last_state := Some snap_quiet\<rparr>"

definition clock_at :: "real \<Rightarrow> clock" where
  "clock_at t = \<lparr>t_select = t, t_check = t, t_post = t, t_save = t\<rparr>"



text \<open>
  Two candidates whose priorities are the doubles 1.7 and 1.7000000000000002, one unit
  in the last place apart, and the double 0.6.
\<close>

definition tip_low :: candidate where
  "tip_low = \<lparr>tip_text = ''low'', spoiler_level = 0,
     priority = 7656119366529843 / 4503599627370496\<rparr>"

definition tip_high :: candidate where
  "tip_high = \<lparr>tip_text = ''high'', spoiler_level = 0,
     priority = 1914029841632461 / 1125899906842624\<rparr>"

definition double_0_6 :: real where
  "double_0_6 = 5404319552844595 / 9007199254740992"


text \<open>An environment whose \<^verbatim>\<open>GEMINI_TEMPERATURE\<close> is not a number.\<close>

definition env_bad_temperature :: gemini_env where
  "env_bad_temperature = env_unset\<lparr>GEMINI_TEMPERATURE := NotNumeric\<rparr>"

section \<open>Properties\<close>

subsection \<open>Binary64 rounding\<close>

text \<open>Rounding to the nearest integer is monotone and fixes the integers.\<close>

lemma round_half_even_of_int: "round_half_even (of_int n) = n"
  by (simp add: round_half_even_def)

lemma round_half_even_bounds: "\<lfloor>t\<rfloor> \<le> round_half_even t" "round_half_even t \<le> \<lfloor>t\<rfloor> + 1"
  by (simp_all add: round_half_even_def Let_def)

lemma round_half_even_mono: assumes "s \<le> t" shows "round_half_even s \<le> round_half_even t"
proof (cases "\<lfloor>s\<rfloor> = \<lfloor>t\<rfloor>")
  case True
  with assms show ?thesis by (auto simp: round_half_even_def Let_def)
next
  case False
  with assms have "\<lfloor>s\<rfloor> < \<lfloor>t\<rfloor>" using floor_mono [of s t] by linarith
  with round_half_even_bounds(2) [of s] round_half_even_bounds(1) [of t] show ?thesis by linarith
qed

text \<open>On a quotient of integers it is decided by the remainder.\<close>

lemma round_half_even_ratio:
  assumes "0 < b"
  shows "round_half_even (of_int a / of_int b) =
     (let q = a div b; r = a mod b
      in if 2 * r < b then q else if b < 2 * r then q + 1 else if even q then q else q + 1)"
proof -
  have f: "\<lfloor>real_of_int a / real_of_int b\<rfloor> = a div b" by (rule floor_divide_of_int_eq)
  have "real_of_int a = real_of_int (a div b) * real_of_int b + real_of_int (a mod b)"
    by (metis div_mult_mod_eq of_int_add of_int_mult)
  then have d: "real_of_int a / real_of_int b - real_of_int (a div b) =
      real_of_int (a mod b) / real_of_int b"
    using assms by (simp add: field_simps)
  have lt: "real_of_int (a mod b) / real_of_int b < 1 / 2 \<longleftrightarrow> 2 * (a mod b) < b"
    using assms by (simp add: field_simps) linarith
  have gt: "1 / 2 < real_of_int (a mod b) / real_of_int b \<longleftrightarrow> b < 2 * (a mod b)"
    using assms by (simp add: field_simps) linarith
  show ?thesis
    unfolding round_half_even_def Let_def f d lt gt ..
qed

lemma powr_powi:
  "2 powr real_of_int e = (2::real) powi e" "2 powr (real_of_int e + 1) = (2::real) powi (e + 1)"
proof -
  show "2 powr real_of_int e = (2::real) powi e" by (simp add: powr_real_of_int')
  have "2 powr real_of_int (e + 1) = (2::real) powi (e + 1)" by (rule powr_real_of_int') simp_all
  then show "2 powr (real_of_int e + 1) = (2::real) powi (e + 1)" by simp
qed

lemma exponent2_bounds:
  assumes "0 < x"
  shows "2 powi (exponent2 x) \<le> x" "x < 2 powi (exponent2 x + 1)"
proof -
  have "2 powr real_of_int (exponent2 x) \<le> x \<and> x < 2 powr (real_of_int (exponent2 x) + 1)"
    using floor_log_eq_powr_iff [of x 2 "exponent2 x"] assms by (simp add: exponent2_def)
  then show "2 powi (exponent2 x) \<le> x" "x < 2 powi (exponent2 x + 1)"
    unfolding powr_powi by simp_all
qed

lemma exponent2_unique:
  assumes "2 powi e \<le> x" "x < 2 powi (e + 1)"
  shows "exponent2 x = e"
proof -
  have pos: "0 < x" using assms(1) zero_less_power_int [of "2::real" e] by linarith
  have "2 powr real_of_int e \<le> x \<and> x < 2 powr (real_of_int e + 1)"
    unfolding powr_powi using assms by simp
  then have "\<lfloor>log 2 x\<rfloor> = e"
    using floor_log_eq_powr_iff [of x 2 e] pos by simp
  then show ?thesis by (simp add: exponent2_def)
qed

lemma exponent2_mono:
  assumes "0 < x" "x \<le> y"
  shows "exponent2 x \<le> exponent2 y"
  unfolding exponent2_def using assms by (intro floor_mono) simp

text \<open>Rounding a positive real stays inside its binade, so rounding is monotone.\<close>

lemma round_pos_bounds:
  assumes "0 < x"
  shows "2 powi (exponent2 x) \<le> round_pos x" "round_pos x \<le> 2 powi (exponent2 x + 1)"
proof -
  let ?e = "exponent2 x"
  let ?u = "(2::real) powi (?e - 52)"
  have u: "0 < ?u" by simp
  have lo: "2 powi ?e = of_int (2 ^ 52) * ?u"
    by (simp add: power_int_diff)
  have hi: "2 powi (?e + 1) = of_int (2 ^ 53) * ?u"
    by (simp add: power_int_diff power_int_add)
  from exponent2_bounds [OF assms] have "of_int (2 ^ 52) * ?u \<le> x" "x \<le> of_int (2 ^ 53) * ?u"
    unfolding lo hi by simp_all
  then have "of_int (2 ^ 52) \<le> x / ?u" "x / ?u \<le> of_int (2 ^ 53)"
    using u by (simp_all add: field_simps)
  then have "round_half_even (of_int (2 ^ 52)) \<le> round_half_even (x / ?u)" "round_half_even (x / ?u) \<le> round_half_even (of_int (2 ^ 53))"
    by (auto intro: round_half_even_mono)
  then have r: "2 ^ 52 \<le> round_half_even (x / ?u)" "round_half_even (x / ?u) \<le> 2 ^ 53"
    unfolding round_half_even_of_int by simp_all
  have "of_int (2 ^ 52) * ?u \<le> of_int (round_half_even (x / ?u)) * ?u"
    using r(1) u by (intro mult_right_mono) (simp_all flip: of_int_le_iff)
  then show "2 powi ?e \<le> round_pos x" unfolding lo by (simp add: round_pos_def Let_def)
  have "of_int (round_half_even (x / ?u)) * ?u \<le> of_int (2 ^ 53) * ?u"
    using r(2) u by (intro mult_right_mono) (simp_all flip: of_int_le_iff)
  then show "round_pos x \<le> 2 powi (?e + 1)" unfolding hi by (simp add: round_pos_def Let_def)
qed

lemma round_pos_pos: "0 < x \<Longrightarrow> 0 < round_pos x"
  using round_pos_bounds(1) [of x] zero_less_power_int [of "2::real" "exponent2 x"] by linarith

lemma round_pos_mono:
  assumes "0 < x" "x \<le> y"
  shows "round_pos x \<le> round_pos y"
proof (cases "exponent2 x = exponent2 y")
  case True
  let ?u = "(2::real) powi (exponent2 y - 52)"
  have u: "0 < ?u" by simp
  from assms(2) u have "x / ?u \<le> y / ?u" by (simp add: divide_right_mono)
  then have "round_half_even (x / ?u) \<le> round_half_even (y / ?u)" by (rule round_half_even_mono)
  then have "of_int (round_half_even (x / ?u)) * ?u \<le> of_int (round_half_even (y / ?u)) * ?u"
    using u by (intro mult_right_mono) simp_all
  then show ?thesis by (simp add: round_pos_def Let_def True)
next
  case False
  with exponent2_mono [OF assms] have "exponent2 x + 1 \<le> exponent2 y" by simp
  then have "(2::real) powi (exponent2 x + 1) \<le> 2 powi (exponent2 y)"
    by (intro power_int_increasing) simp_all
  moreover have "0 < y" using assms by simp
  ultimately show ?thesis
    using round_pos_bounds(2) [OF assms(1)] round_pos_bounds(1) [of y] by linarith
qed

lemma rnd_mono: assumes "x \<le> y" shows "rnd x \<le> rnd y"
proof -
  consider "0 < x" | "y < 0" | "x \<le> 0" "0 \<le> y" by linarith
  then show ?thesis
  proof cases
    case 1
    with assms round_pos_mono [of x y] show ?thesis by (simp add: rnd_def)
  next
    case 2
    with assms round_pos_mono [of "- y" "- x"] show ?thesis by (simp add: rnd_def)
  next
    case 3
    have "rnd x \<le> 0" using 3(1) round_pos_pos [of "- x"] by (auto simp: rnd_def)
    moreover have "0 \<le> rnd y" using 3(2) round_pos_pos [of y] by (auto simp: rnd_def)
    ultimately show ?thesis by simp
  qed
qed

text \<open>The value of \<open>rnd\<close> on a real whose binade is known.\<close>

lemma rnd_binade:
  assumes "2 powi e \<le> x" "x < 2 powi (e + 1)"
  shows "rnd x = of_int (round_half_even (x / 2 powi (e - 52))) * 2 powi (e - 52)"
proof -
  have pos: "0 < x" using assms(1) zero_less_power_int [of "2::real" e] by linarith
  with exponent2_unique [OF assms] show ?thesis by (simp add: rnd_def round_pos_def Let_def)
qed

lemma rnd_fixed:
  "rnd 0 = 0" "rnd 1 = 1" "rnd (1 / 2) = 1 / 2" "rnd (1 / 4) = 1 / 4" "rnd (3 / 4) = 3 / 4"
proof -
  show "rnd 0 = 0" by (simp add: rnd_def)
  have "rnd 1 = of_int (round_half_even (of_int (2 ^ 52))) * 2 powi (0 - 52)"
    using rnd_binade [of 0 1] by (simp add: power_int_minus)
  then show "rnd 1 = 1" unfolding round_half_even_of_int by (simp add: power_int_minus)
  have "rnd (1 / 2) = of_int (round_half_even (of_int (2 ^ 52))) * 2 powi (- 1 - 52)"
    using rnd_binade [of "- 1" "1 / 2"] by (simp add: power_int_minus)
  then show "rnd (1 / 2) = 1 / 2" unfolding round_half_even_of_int by (simp add: power_int_minus)
  have "rnd (1 / 4) = of_int (round_half_even (of_int (2 ^ 52))) * 2 powi (- 2 - 52)"
    using rnd_binade [of "- 2" "1 / 4"] by (simp add: power_int_minus)
  then show "rnd (1 / 4) = 1 / 4" unfolding round_half_even_of_int by (simp add: power_int_minus)
  have "rnd (3 / 4) = of_int (round_half_even (of_int (3 * 2 ^ 51))) * 2 powi (- 1 - 52)"
    using rnd_binade [of "- 1" "3 / 4"] by (simp add: power_int_minus)
  then show "rnd (3 / 4) = 3 / 4" unfolding round_half_even_of_int by (simp add: power_int_minus)
qed

lemma rnd_ratio:
  assumes "0 < b" "2 powi e \<le> real_of_int a / real_of_int b"
    "real_of_int a / real_of_int b < 2 powi (e + 1)" "e \<le> 52"
  shows "rnd (of_int a / of_int b) =
     of_int (let n = a * 2 ^ nat (52 - e); q = n div b; r = n mod b
             in if 2 * r < b then q else if b < 2 * r then q + 1
                else if even q then q else q + 1) / 2 ^ nat (52 - e)"
proof -
  have u: "(2::real) powi (e - 52) = 1 / 2 ^ nat (52 - e)"
  proof -
    define n where "n = nat (52 - e)"
    have e: "e - 52 = - int n" using assms(4) by (simp add: n_def)
    have "(2::real) powi (- int n) = 1 / 2 ^ n"
      by (simp add: power_int_minus_divide)
    then show ?thesis unfolding e n_def .
  qed
  have "real_of_int a / real_of_int b / 2 powi (e - 52) =
      of_int (a * 2 ^ nat (52 - e)) / of_int b"
    unfolding u by simp
  then show ?thesis
    unfolding rnd_binade [OF assms(2,3)] round_half_even_ratio [OF assms(1), symmetric] u by simp
qed

text \<open>
  The products of the double 0.6 with the doubles 1.7 and 1.7000000000000002 round to
  the same double, 1.02.
\<close>

lemma rnd_tie_low:
  "rnd (41376115591449405052764608748585 / 40564819207303340847894502572032) =
     2296835809958953 / 2251799813685248"
  using rnd_ratio [of 40564819207303340847894502572032 0 41376115591449405052764608748585]
  by (simp add: Let_def)

lemma rnd_tie_high:
  "rnd (10344028897862352614271040398295 / 10141204801825835211973625643008) =
     2296835809958953 / 2251799813685248"
  using rnd_ratio [of 10141204801825835211973625643008 0 10344028897862352614271040398295]
  by (simp add: Let_def)

lemma rnd_tie_same: "rnd (2296835809958953 / 2251799813685248) = 2296835809958953 / 2251799813685248"
  using rnd_ratio [of 2251799813685248 0 2296835809958953] by (simp add: Let_def)

lemma rnd_tie_weighted:
  "rnd (6890507429876859 / 9007199254740992) = 6890507429876859 / 9007199254740992"
  using rnd_ratio [of 9007199254740992 "- 1" 6890507429876859] by (simp add: Let_def power_int_minus)

lemma rnd_1000: "rnd 1000 = 1000"
  using rnd_ratio [of 1 9 1000] by (simp add: Let_def)

subsection \<open>The distribution of the rule strategy\<close>

lemma dict_set_map:
  "distinct ks \<Longrightarrow> k0 \<in> set ks \<Longrightarrow>
   dict_set (map (\<lambda>k. (k, g k)) ks) k0 v = map (\<lambda>k. (k, if k = k0 then v else g k)) ks"
  by (induction ks) auto

lemma spread_map:
  "distinct ks \<Longrightarrow> set ls \<subseteq> set ks \<Longrightarrow>
   spread ls l r (map (\<lambda>k. (k, g k)) ks) =
   map (\<lambda>k. (k, if k \<in> set ls \<and> k \<noteq> l then r else g k)) ks"
proof (induction ls arbitrary: g)
  case Nil
  then show ?case by simp
next
  case (Cons a ls)
  show ?case
  proof (cases "a = l")
    case True
    with Cons show ?thesis by auto
  next
    case False
    have "spread (a # ls) l r (map (\<lambda>k. (k, g k)) ks) =
          spread ls l r (map (\<lambda>k. (k, if k = a then r else g k)) ks)"
      using False Cons.prems by (simp add: dict_set_map)
    also have "\<dots> = map (\<lambda>k. (k, if k \<in> set ls \<and> k \<noteq> l then r
                                     else (if k = a then r else g k))) ks"
      using Cons.prems by (intro Cons.IH) auto
    also have "\<dots> = map (\<lambda>k. (k, if k \<in> set (a # ls) \<and> k \<noteq> l then r else g k)) ks"
      using False by auto
    finally show ?thesis .
  qed
qed

lemma distinct_labels: "distinct labels"
  by (simp add: labels_def)

lemma length_labels: "length labels = 8"
  by (simp add: labels_def)

lemma dist_shape:
  "l \<in> set labels \<Longrightarrow>
   spread labels l r (dict_set (map (\<lambda>k. (k, 0)) labels) l c) =
   map (\<lambda>k. (k, if k = l then c else r)) labels"
  by (simp add: dict_set_map spread_map distinct_labels)

lemma ladder_label: "fst (ladder state events) \<in> set labels"
  by (simp add: ladder_def Let_def labels_def)

lemma rules_eq:
  "rules state events =
    (fst (ladder state events), snd (ladder state events),
     map (\<lambda>k. (k, if k = fst (ladder state events) then snd (ladder state events)
                   else (1 - snd (ladder state events)) / 7)) labels)"
  using ladder_label [of state events]
  by (simp add: rules_def Let_def split_beta dist_shape length_labels)

lemma label_conf_rules: "label_conf (rules state events) = ladder state events"
  by (simp add: label_conf_def rules_eq)

lemma map_of_tab: "k \<in> set ks \<Longrightarrow> map_of (map (\<lambda>k. (k, f k)) ks) k = Some (f k)"
  by (induction ks) auto

lemma sum_tab_absent:
  "l \<notin> set ks \<Longrightarrow>
   sum_list (map snd (map (\<lambda>k. (k, if k = l then c else r)) ks)) = real (length ks) * (r::real)"
  by (induction ks) (auto simp: algebra_simps)

lemma sum_tab:
  "distinct ks \<Longrightarrow> l \<in> set ks \<Longrightarrow>
   sum_list (map snd (map (\<lambda>k. (k, if k = l then c else r)) ks)) =
   c + (real (length ks) - 1) * (r::real)"
proof (induction ks)
  case Nil
  then show ?case by simp
next
  case (Cons a ks)
  show ?case
  proof (cases "a = l")
    case True
    with Cons.prems have "l \<notin> set ks" by simp
    from sum_tab_absent [OF this, of c r] True show ?thesis by (simp add: algebra_simps)
  next
    case False
    with Cons show ?thesis by (simp add: algebra_simps)
  qed
qed

lemma rules_sum: "sum_list (map snd (snd (snd (rules state events)))) = 1"
  using ladder_label [of state events]
  by (simp add: rules_eq sum_tab distinct_labels length_labels field_simps del: map_map)

lemma stone_no_resource:
  "str_in ''ore'' (lower ''stone'') = False" "str_in ''log'' (lower ''stone'') = False"
  "str_in ''crop'' (lower ''stone'') = False"
  by code_simp+

lemma ladder_quiet:
  "health st = Some 20 \<Longrightarrow> hunger st = Some 20 \<Longrightarrow> isNight st = Some False \<Longrightarrow>
   logs st = Some 5 \<Longrightarrow> pos_y st = Some 64 \<Longrightarrow> blockUnderCrosshair st = Some ''stone'' \<Longrightarrow>
   ladder st [] = (''exploring'', 0.6)"
  by (simp add: ladder_def Let_def stone_no_resource)

subsection \<open>C1: the priority ladder\<close>

text \<open>
  C1, as the code has it. The rule strategy returns the label and confidence of the first
  rule of the nine-rule ladder that holds, in the order and with the confidences of the
  specification. For a snapshot with health 5 and hunger 20 whose window holds a
  \<^verbatim>\<open>damage_taken\<close> event the label is \<^verbatim>\<open>low_health\<close>, never \<^verbatim>\<open>combat\<close>, whatever
  else the window holds; the confidence is 0.95 (rule 2) unless the window also holds a
  \<^verbatim>\<open>player_death\<close> event, and then it is 0.98 (rule 1 comes before rule 2).
\<close>

theorem C1_rules_ladder:
  "(let h = (case health state of None \<Rightarrow> 20 | Some v \<Rightarrow> v);
        hu = (case hunger state of None \<Rightarrow> 20 | Some v \<Rightarrow> v);
        night = (case isNight state of None \<Rightarrow> False | Some b \<Rightarrow> b);
        lg = (case logs state of None \<Rightarrow> 0 | Some n \<Rightarrow> n);
        y = (case pos_y state of None \<Rightarrow> 64 | Some v \<Rightarrow> v);
        blk = lower (case blockUnderCrosshair state of None \<Rightarrow> [] | Some b \<Rightarrow> b);
        r1 = has_event ''player_death'' events;
        r2 = (has_event ''damage_taken'' events \<and> h < 10);
        r3 = (has_event ''combat_start'' events \<or> has_event ''mob_killed'' events);
        r4 = (h < 8);
        r5 = (hu < 6);
        r6 = (night \<and> lg < 2);
        r7 = (has_event ''mine_attempt'' events \<or> has_event ''block_broken'' events \<or> y \<le> 32);
        r8 = (str_in ''ore'' blk \<or> str_in ''log'' blk \<or> str_in ''crop'' blk);
        res = label_conf (rules state events)
    in (r1 \<longrightarrow> res = (''low_health'', 0.98)) \<and>
       (\<not> r1 \<and> r2 \<longrightarrow> res = (''low_health'', 0.95)) \<and>
       (\<not> r1 \<and> \<not> r2 \<and> r3 \<longrightarrow> res = (''combat'', 0.90)) \<and>
       (\<not> r1 \<and> \<not> r2 \<and> \<not> r3 \<and> r4 \<longrightarrow> res = (''low_health'', 0.95)) \<and>
       (\<not> r1 \<and> \<not> r2 \<and> \<not> r3 \<and> \<not> r4 \<and> r5 \<longrightarrow> res = (''low_food'', 0.90)) \<and>
       (\<not> r1 \<and> \<not> r2 \<and> \<not> r3 \<and> \<not> r4 \<and> \<not> r5 \<and> r6 \<longrightarrow> res = (''night_risk'', 0.85)) \<and>
       (\<not> r1 \<and> \<not> r2 \<and> \<not> r3 \<and> \<not> r4 \<and> \<not> r5 \<and> \<not> r6 \<and> r7 \<longrightarrow>
          res = (''mining_mode'', 0.75)) \<and>
       (\<not> r1 \<and> \<not> r2 \<and> \<not> r3 \<and> \<not> r4 \<and> \<not> r5 \<and> \<not> r6 \<and> \<not> r7 \<and> r8 \<longrightarrow>
          res = (''near_resource'', 0.70)) \<and>
       (\<not> r1 \<and> \<not> r2 \<and> \<not> r3 \<and> \<not> r4 \<and> \<not> r5 \<and> \<not> r6 \<and> \<not> r7 \<and> \<not> r8 \<longrightarrow>
          res = (''exploring'', 0.60))) \<and>
   (health state = Some 5 \<and> hunger state = Some 20 \<and> has_event ''damage_taken'' events \<longrightarrow>
      label_conf (rules state events) =
        (''low_health'', if has_event ''player_death'' events then 0.98 else 0.95))"
  by (simp add: label_conf_rules ladder_def has_event_def Let_def)

text \<open>
  The instance of C1 the specification tests: health 5, hunger 20, a \<^verbatim>\<open>damage_taken\<close>
  and a \<^verbatim>\<open>combat_start\<close> event in the window.
\<close>

theorem C1_rules_ladder_witness:
  "has_event ''damage_taken'' [ev ''damage_taken'', ev ''combat_start''] \<and>
   has_event ''combat_start'' [ev ''damage_taken'', ev ''combat_start''] \<and>
   label_conf (rules snap_hurt [ev ''damage_taken'', ev ''combat_start'']) = (''low_health'', 0.95)"
proof -
  have h: "health snap_hurt = Some 5" "hunger snap_hurt = Some 20"
    "has_event ''damage_taken'' [ev ''damage_taken'', ev ''combat_start'']"
    "has_event ''combat_start'' [ev ''damage_taken'', ev ''combat_start'']"
    "\<not> has_event ''player_death'' [ev ''damage_taken'', ev ''combat_start'']"
    by (simp_all add: snap_hurt_def has_event_def ev_def type_of_def)
  from C1_rules_ladder [of snap_hurt "[ev ''damage_taken'', ev ''combat_start'']"] h
  show ?thesis by (simp add: Let_def)
qed

text \<open>
  C1 as stated fails when the window also holds a \<^verbatim>\<open>player_death\<close> event: health is
  5, hunger is 20, a \<^verbatim>\<open>damage_taken\<close> event is present, and the confidence is 0.98,
  not 0.95.
\<close>

theorem C1_counterexample:
  "health snap_hurt = Some 5 \<and> hunger snap_hurt = Some 20 \<and>
   has_event ''damage_taken'' [ev ''damage_taken'', ev ''player_death''] \<and>
   label_conf (rules snap_hurt [ev ''damage_taken'', ev ''player_death'']) = (''low_health'', 0.98) \<and>
   label_conf (rules snap_hurt [ev ''damage_taken'', ev ''player_death'']) \<noteq> (''low_health'', 0.95)"
  by (simp add: label_conf_rules ladder_def has_event_def Let_def snap_hurt_def ev_def type_of_def)

subsection \<open>C2: the distribution\<close>

text \<open>
  C2. For every snapshot and event list the distribution of the rule strategy has the
  known labels as its keys, gives the returned confidence to the returned label and
  \<open>(1 - confidence) / (labelCount - 1)\<close> to every other known label, and its values sum
  to 1 within \<open>10\<^sup>-\<^sup>6\<close> (floats read as reals).
\<close>

theorem C2_rules_distribution:
  "map fst (snd (snd (rules state events))) = labels \<and>
   map_of (snd (snd (rules state events))) (fst (rules state events)) =
     Some (fst (snd (rules state events))) \<and>
   (\<forall>l \<in> set labels. l \<noteq> fst (rules state events) \<longrightarrow>
      map_of (snd (snd (rules state events))) l =
        Some ((1 - fst (snd (rules state events))) / (real (length labels) - 1))) \<and>
   \<bar>sum_list (map snd (snd (snd (rules state events)))) - 1\<bar> \<le> 1 / 10 ^ 6"
proof -
  have a: "map fst (snd (snd (rules state events))) = labels"
    by (simp add: rules_eq comp_def)
  have b: "map_of (snd (snd (rules state events))) (fst (rules state events)) =
      Some (fst (snd (rules state events)))"
    using ladder_label [of state events] by (simp add: rules_eq map_of_tab)
  have c: "\<forall>l \<in> set labels. l \<noteq> fst (rules state events) \<longrightarrow>
      map_of (snd (snd (rules state events))) l =
        Some ((1 - fst (snd (rules state events))) / (real (length labels) - 1))"
    by (simp add: rules_eq map_of_tab length_labels)
  have d: "\<bar>sum_list (map snd (snd (snd (rules state events)))) - 1\<bar> \<le> 1 / 10 ^ 6"
    by (simp add: rules_sum)
  from a b c d show ?thesis by blast
qed

theorem C2_rules_distribution_witness:
  "fst (rules snap_quiet []) = ''exploring'' \<and>
   map_of (snd (snd (rules snap_quiet []))) ''exploring'' = Some 0.6 \<and>
   map_of (snd (snd (rules snap_quiet []))) ''combat'' = Some (0.4 / 7) \<and>
   \<bar>sum_list (map snd (snd (snd (rules snap_quiet [])))) - 1\<bar> \<le> 1 / 10 ^ 6"
proof -
  have l: "fst (rules snap_quiet []) = ''exploring''" "fst (snd (rules snap_quiet [])) = 0.6"
    by (simp_all add: rules_eq ladder_quiet snap_quiet_def)
  have m: "''combat'' \<in> set labels" "''combat'' \<noteq> ''exploring''"
    by (simp_all add: labels_def)
  from C2_rules_distribution [of snap_quiet "[]"] l m show ?thesis
    by (auto simp: length_labels)
qed

subsection \<open>C3: the event boost\<close>

lemma matches_eq:
  "(\<Sum>et \<leftarrow> filter (\<lambda>et. et \<in> set rel) (map type_of events). (1::nat)) =
   length (filter (\<lambda>e. type_of e \<in> set rel) events)"
  by (induction events) auto

lemma boost_eq:
  "calculate_event_boost label events =
     (if events = [] \<or> relevant_matches label events = 0 then 1
      else min (1 + (real (relevant_matches label events) / real (length events)) * 2) 3)"
  unfolding calculate_event_boost_def Let_def matches_eq relevant_matches_def by simp

lemma boost_ge_one: "1 \<le> calculate_event_boost label events"
proof -
  have "0 \<le> real (relevant_matches label events) / real (length events)" by simp
  then show ?thesis by (auto simp: boost_eq min_def)
qed

text \<open>
  C3. For every label and event list the event boost lies in \<open>[1, 3]\<close>; it is 1 when
  the list is empty or holds no event type relevant to the label, and otherwise it is
  \<open>min(3, 1 + (matches / totalEvents) * 2)\<close>.
\<close>

theorem C3_event_boost:
  "1 \<le> calculate_event_boost label events \<and> calculate_event_boost label events \<le> 3 \<and>
   (events = [] \<or> relevant_matches label events = 0 \<longrightarrow> calculate_event_boost label events = 1) \<and>
   (events \<noteq> [] \<and> relevant_matches label events \<noteq> 0 \<longrightarrow>
      calculate_event_boost label events =
        min 3 (1 + (real (relevant_matches label events) / real (length events)) * 2))"
proof -
  have "0 \<le> real (relevant_matches label events) / real (length events)" by simp
  then show ?thesis by (auto simp: boost_eq min_def)
qed

theorem C3_event_boost_witness:
  "relevant_matches ''combat'' [ev ''damage_taken'', ev ''biome_changed''] = 1 \<and>
   calculate_event_boost ''combat'' [ev ''damage_taken'', ev ''biome_changed''] = 2"
proof -
  have m: "relevant_matches ''combat'' [ev ''damage_taken'', ev ''biome_changed''] = 1"
    by (simp add: relevant_matches_def relevance_map_def dict_get_def ev_def type_of_def)
  from C3_event_boost [of "''combat''" "[ev ''damage_taken'', ev ''biome_changed'']"] m
  show ?thesis by simp
qed

subsection \<open>C4: the admission check\<close>

lemma after_post_ledgers:
  "last_tip (snd (after_post w now ns label tip u r s)) = Some tip"
  "last_tip_timestamp (snd (after_post w now ns label tip u r s)) = now"
  "label_last_tip (snd (after_post w now ns label tip u r s)) = (label_last_tip s)(label \<mapsto> now)"
  "tip_last_shown (snd (after_post w now ns label tip u r s)) = (tip_last_shown s)(tip \<mapsto> now)"
  "label_tips_posted (snd (after_post w now ns label tip u r s)) =
     (label_tips_posted s)(label \<mapsto> dict_get (label_tips_posted s) label 0 + 1)"
  by (simp_all add: after_post_def save_state_def Let_def split: write_outcome.splits)

lemma check_cooldowns_iff:
  "check_cooldowns c s now label \<longleftrightarrow>
     now - last_tip_timestamp s \<ge> real_of_int (GLOBAL_COOLDOWN_SECONDS c) \<and>
     now - dict_get (label_last_tip s) label 0 \<ge> real_of_int (LABEL_COOLDOWN_SECONDS c)"
  by (auto simp: check_cooldowns_def)

text \<open>
  C4. The admission check holds exactly when both the global and the label cooldown
  have elapsed. After \<^verbatim>\<open>_after_post\<close> has committed a dispatch of label \<open>label\<close> at
  time \<open>T\<close>, the check for that label fails at \<open>T + labelCooldown - \<epsilon>\<close> and, the global
  cooldown being satisfied at that time, holds at \<open>T + labelCooldown + \<epsilon>\<close>, for every
  \<open>\<epsilon> > 0\<close>.
\<close>

theorem C4_admission:
  "(check_cooldowns c s now label \<longleftrightarrow>
     now - last_tip_timestamp s \<ge> real_of_int (GLOBAL_COOLDOWN_SECONDS c) \<and>
     now - dict_get (label_last_tip s) label 0 \<ge> real_of_int (LABEL_COOLDOWN_SECONDS c)) \<and>
   (0 < \<epsilon> \<longrightarrow>
      \<not> check_cooldowns c (snd (after_post w T Ts label tip u r s))
          (T + real_of_int (LABEL_COOLDOWN_SECONDS c) - \<epsilon>) label) \<and>
   (0 < \<epsilon> \<and>
    real_of_int (GLOBAL_COOLDOWN_SECONDS c) \<le> real_of_int (LABEL_COOLDOWN_SECONDS c) + \<epsilon> \<longrightarrow>
      check_cooldowns c (snd (after_post w T Ts label tip u r s))
          (T + real_of_int (LABEL_COOLDOWN_SECONDS c) + \<epsilon>) label)"
  by (simp add: check_cooldowns_iff after_post_ledgers dict_get_def)

theorem C4_admission_witness:
  "\<not> check_cooldowns default_config
       (snd (after_post world_ok 1000 1000 ''exploring'' (tip_text tip_explore) 0 ''unknown''
          (server_fresh [tip_explore]))) 1029 ''exploring'' \<and>
   check_cooldowns default_config
       (snd (after_post world_ok 1000 1000 ''exploring'' (tip_text tip_explore) 0 ''unknown''
          (server_fresh [tip_explore]))) 1031 ''exploring''"
  using C4_admission [of default_config "server_fresh [tip_explore]" 0 "''exploring''" 1 world_ok
      1000 1000 "tip_text tip_explore" 0 "''unknown''"]
  by (simp add: default_config_def)

subsection \<open>C10: the ranking is by priority\<close>

lemma length_insort_desc: "length (insort_desc x ys) = Suc (length ys)"
  by (induction ys) auto

lemma length_sort_desc: "length (sort_desc xs) = length xs"
  by (induction xs) (auto simp: sort_desc_def length_insort_desc)

lemma sort_desc_Cons: "sort_desc (x # xs) = insort_desc x (sort_desc xs)"
  by (simp add: sort_desc_def)

lemma sort_desc_single: "sort_desc [x] = [x]"
  by (simp add: sort_desc_def)

text \<open>
  The head of the sorted list is the earliest element of largest key.
\<close>

lemma hd_sort_desc:
  "xs \<noteq> [] \<Longrightarrow>
   \<exists>i < length xs. hd (sort_desc xs) = xs ! i \<and>
     (\<forall>j < length xs. fst (xs ! j) \<le> fst (xs ! i)) \<and> (\<forall>j < i. fst (xs ! j) < fst (xs ! i))"
proof (induction xs)
  case Nil
  then show ?case by simp
next
  case (Cons x xs)
  show ?case
  proof (cases "xs = []")
    case True
    then show ?thesis by (simp add: sort_desc_def)
  next
    case False
    from Cons.IH [OF False] obtain i where i: "i < length xs" "hd (sort_desc xs) = xs ! i"
      "\<forall>j < length xs. fst (xs ! j) \<le> fst (xs ! i)" "\<forall>j < i. fst (xs ! j) < fst (xs ! i)"
      by blast
    from False have "sort_desc xs \<noteq> []"
      using length_sort_desc [of xs] by auto
    then obtain y ys where ys: "sort_desc xs = y # ys" by (cases "sort_desc xs") auto
    with i have y: "y = xs ! i" by simp
    show ?thesis
    proof (cases "fst x < fst y")
      case True
      have "hd (sort_desc (x # xs)) = (x # xs) ! Suc i"
        using True ys y by (simp add: sort_desc_Cons)
      moreover have "\<forall>j < length (x # xs). fst ((x # xs) ! j) \<le> fst ((x # xs) ! Suc i)"
        using i(3) True y by (auto simp: nth_Cons split: nat.splits)
      moreover have "\<forall>j < Suc i. fst ((x # xs) ! j) < fst ((x # xs) ! Suc i)"
        using i(4) True y by (auto simp: nth_Cons split: nat.splits)
      ultimately show ?thesis using i(1) by (intro exI [of _ "Suc i"]) simp
    next
      case False
      have "hd (sort_desc (x # xs)) = (x # xs) ! 0"
        using False ys by (simp add: sort_desc_Cons)
      moreover have "\<forall>j < length (x # xs). fst ((x # xs) ! j) \<le> fst ((x # xs) ! 0)"
      proof (intro allI impI)
        fix j assume "j < length (x # xs)"
        show "fst ((x # xs) ! j) \<le> fst ((x # xs) ! 0)"
        proof (cases j)
          case 0
          then show ?thesis by simp
        next
          case (Suc k)
          with \<open>j < length (x # xs)\<close> have "fst (xs ! k) \<le> fst (xs ! i)" using i(3) by simp
          with False y Suc show ?thesis by simp
        qed
      qed
      ultimately show ?thesis by (intro exI [of _ 0]) simp
    qed
  qed
qed

text \<open>The time weight lies between 1/2 and 3/4; the score is monotone in the priority.\<close>

lemma time_weight_bounds: "1 / 2 \<le> time_weight now prev" "time_weight now prev \<le> 3 / 4"
proof -
  define m where "m = min (max 0 (fl_sub now prev)) 60"
  define q where "q = fl_div m 120"
  define tf where "tf = fl_sub 1 q"
  define h where "h = fl_mul 0.5 tf"
  have m: "0 \<le> m" "m \<le> 60" by (simp_all add: m_def)
  have "rnd 0 \<le> rnd (m / 120)" "rnd (m / 120) \<le> rnd (1 / 2)"
    using m by (auto intro!: rnd_mono)
  then have q: "0 \<le> q" "q \<le> 1 / 2" by (simp_all add: q_def fl_div_def rnd_fixed)
  have "rnd (1 / 2) \<le> rnd (1 - q)" "rnd (1 - q) \<le> rnd 1"
    using q by (auto intro!: rnd_mono)
  then have tf: "1 / 2 \<le> tf" "tf \<le> 1" by (simp_all add: tf_def fl_sub_def rnd_fixed)
  have "rnd (1 / 4) \<le> rnd (0.5 * tf)" "rnd (0.5 * tf) \<le> rnd (1 / 2)"
    using tf by (auto intro!: rnd_mono)
  then have h: "1 / 4 \<le> h" "h \<le> 1 / 2" by (simp_all add: h_def fl_mul_def rnd_fixed)
  have "rnd (1 / 2) \<le> rnd (1 - h)" "rnd (1 - h) \<le> rnd (3 / 4)"
    using h by (auto intro!: rnd_mono)
  then have "1 / 2 \<le> fl_sub 1 h" "fl_sub 1 h \<le> 3 / 4" by (simp_all add: fl_sub_def rnd_fixed)
  then show "1 / 2 \<le> time_weight now prev" "time_weight now prev \<le> 3 / 4"
    by (simp_all add: time_weight_def h_def tf_def q_def m_def)
qed

lemma composite_score_mono:
  assumes "0 \<le> conf" "0 \<le> boost" "0 \<le> w" "p \<le> q"
  shows "composite_score conf boost w p \<le> composite_score conf boost w q"
proof -
  have "conf * p \<le> conf * q" using assms(4,1) by (rule mult_left_mono)
  then have "rnd (conf * p) \<le> rnd (conf * q)" by (rule rnd_mono)
  then have "rnd (conf * p) * boost \<le> rnd (conf * q) * boost"
    using assms(2) by (rule mult_right_mono)
  then have "rnd (rnd (conf * p) * boost) \<le> rnd (rnd (conf * q) * boost)" by (rule rnd_mono)
  then have "rnd (rnd (conf * p) * boost) * w \<le> rnd (rnd (conf * q) * boost) * w"
    using assms(3) by (rule mult_right_mono)
  then have "rnd (rnd (rnd (conf * p) * boost) * w) \<le> rnd (rnd (rnd (conf * q) * boost) * w)"
    by (rule rnd_mono)
  then show ?thesis by (simp add: composite_score_def fl_mul_def)
qed

lemma boost_fl_bounds:
  "1 \<le> calculate_event_boost_fl label events" "calculate_event_boost_fl label events \<le> 3"
proof -
  have "1 \<le> fl_add 1 (fl_mul (fl_div (real m) (real n)) 2)" for m n :: nat
  proof -
    have "0 \<le> real m / real n" by simp
    then have "rnd 0 \<le> rnd (real m / real n)" by (rule rnd_mono)
    then have "0 \<le> rnd (real m / real n) * 2" by (simp add: rnd_fixed)
    then have "rnd 0 \<le> rnd (rnd (real m / real n) * 2)" by (rule rnd_mono)
    then have "1 \<le> 1 + rnd (rnd (real m / real n) * 2)" by (simp add: rnd_fixed)
    then have "rnd 1 \<le> rnd (1 + rnd (rnd (real m / real n) * 2))" by (rule rnd_mono)
    then show ?thesis by (simp add: fl_add_def fl_mul_def fl_div_def rnd_fixed)
  qed
  then show "1 \<le> calculate_event_boost_fl label events"
    by (simp add: calculate_event_boost_fl_def Let_def del: sum_list_triv)
  show "calculate_event_boost_fl label events \<le> 3"
    by (simp add: calculate_event_boost_fl_def Let_def del: sum_list_triv)
qed

lemma select_tip_scored:
  "select_tip c s now label conf events =
     (if filter_candidates c s now (get_tips_for_label (tips s) label) = [] then None
      else case sort_desc
                  (map (\<lambda>x. (composite_score conf (calculate_event_boost_fl label events)
                                 (time_weight now (dict_get (label_last_tip s) label 0))
                                 (priority x),
                               tip_text x))
                     (filter_candidates c s now (get_tips_for_label (tips s) label))) of
             [] \<Rightarrow> None
           | x # _ \<Rightarrow> Some (snd x))"
  by (simp add: select_tip_def Let_def composite_score_def time_weight_def)

text \<open>
  C10, as the code has it. In a tip-selection call with confidence above 0 the boost
  (at least 1) and the time weight are the same positive numbers for every surviving
  candidate, and the
  score, a chain of binary64 products, is a non-decreasing function of the priority; it
  is not strictly increasing, since two priorities can round to one score. No tip is
  selected when no candidate survives the filter. Otherwise the selected tip is the text
  of the earliest listed surviving candidate of largest score: every candidate listed
  before it has a strictly smaller score and a strictly smaller priority, and a
  surviving candidate of strictly larger priority is listed after it and has the same
  score.
\<close>

theorem C10_priority_ranking:
  "0 < conf \<longrightarrow>
   (let cand = filter_candidates c s now (get_tips_for_label (tips s) label);
        boost = calculate_event_boost_fl label events;
        w = time_weight now (dict_get (label_last_tip s) label 0);
        score = composite_score conf boost w
    in 1 \<le> boost \<and> 0 < w \<and>
       (\<forall>p q. p \<le> q \<longrightarrow> score p \<le> score q) \<and>
       (cand = [] \<longrightarrow> select_tip c s now label conf events = None) \<and>
       (cand \<noteq> [] \<longrightarrow>
          (\<exists>i < length cand.
             select_tip c s now label conf events = Some (tip_text (cand ! i)) \<and>
             (\<forall>j < length cand. score (priority (cand ! j)) \<le> score (priority (cand ! i))) \<and>
             (\<forall>j < i. score (priority (cand ! j)) < score (priority (cand ! i))) \<and>
             (\<forall>j < i. priority (cand ! j) < priority (cand ! i)) \<and>
             (\<forall>j < length cand. priority (cand ! i) < priority (cand ! j) \<longrightarrow>
                i < j \<and> score (priority (cand ! j)) = score (priority (cand ! i))))))"
proof
  assume conf: "0 < conf"
  define cand where "cand = filter_candidates c s now (get_tips_for_label (tips s) label)"
  define boost where "boost = calculate_event_boost_fl label events"
  define w where "w = time_weight now (dict_get (label_last_tip s) label 0)"
  define score where "score = composite_score conf boost w"
  define scored where "scored = map (\<lambda>x. (score (priority x), tip_text x)) cand"
  have b: "1 \<le> boost" using boost_fl_bounds(1) [of label events] by (simp add: boost_def)
  have w: "0 < w" using time_weight_bounds(1) [of now "dict_get (label_last_tip s) label 0"]
    by (simp add: w_def)
  have mono: "score p \<le> score q" if "p \<le> q" for p q
    unfolding score_def using conf b w that by (intro composite_score_mono) simp_all
  have sel: "select_tip c s now label conf events =
               (if cand = [] then None
                else case sort_desc scored of [] \<Rightarrow> None | x # _ \<Rightarrow> Some (snd x))"
    by (simp add: select_tip_scored cand_def scored_def score_def boost_def w_def)
  have nonempty: "\<exists>i < length cand.
             select_tip c s now label conf events = Some (tip_text (cand ! i)) \<and>
             (\<forall>j < length cand. score (priority (cand ! j)) \<le> score (priority (cand ! i))) \<and>
             (\<forall>j < i. score (priority (cand ! j)) < score (priority (cand ! i))) \<and>
             (\<forall>j < i. priority (cand ! j) < priority (cand ! i)) \<and>
             (\<forall>j < length cand. priority (cand ! i) < priority (cand ! j) \<longrightarrow>
                i < j \<and> score (priority (cand ! j)) = score (priority (cand ! i)))"
    if ne: "cand \<noteq> []"
  proof -
    from ne have sne: "scored \<noteq> []" by (simp add: scored_def)
    from hd_sort_desc [OF sne] obtain i where i: "i < length scored"
      "hd (sort_desc scored) = scored ! i"
      "\<forall>j < length scored. fst (scored ! j) \<le> fst (scored ! i)"
      "\<forall>j < i. fst (scored ! j) < fst (scored ! i)" by blast
    have len: "length scored = length cand" by (simp add: scored_def)
    have nth: "scored ! j = (score (priority (cand ! j)), tip_text (cand ! j))"
      if "j < length cand" for j
      using that by (simp add: scored_def)
    from sne have "sort_desc scored \<noteq> []" using length_sort_desc [of scored] by auto
    then have "select_tip c s now label conf events = Some (snd (hd (sort_desc scored)))"
      using ne by (cases "sort_desc scored") (simp_all add: sel)
    then have 1: "select_tip c s now label conf events = Some (tip_text (cand ! i))"
      using i(1,2) len nth by simp
    have 2: "\<forall>j < length cand. score (priority (cand ! j)) \<le> score (priority (cand ! i))"
      using i(1,3) len nth by simp
    have 3: "\<forall>j < i. score (priority (cand ! j)) < score (priority (cand ! i))"
      using i(1,4) len nth by simp
    have 4: "\<forall>j < i. priority (cand ! j) < priority (cand ! i)"
    proof (intro allI impI)
      fix j assume j: "j < i"
      show "priority (cand ! j) < priority (cand ! i)"
      proof (rule ccontr)
        assume "\<not> priority (cand ! j) < priority (cand ! i)"
        then have "score (priority (cand ! i)) \<le> score (priority (cand ! j))"
          by (intro mono) simp
        with 3 j show False by fastforce
      qed
    qed
    have 5: "\<forall>j < length cand. priority (cand ! i) < priority (cand ! j) \<longrightarrow>
                i < j \<and> score (priority (cand ! j)) = score (priority (cand ! i))"
    proof (intro allI impI)
      fix j assume j: "j < length cand" and p: "priority (cand ! i) < priority (cand ! j)"
      have "i \<noteq> j" using p by auto
      moreover have "\<not> j < i" using 4 p by fastforce
      ultimately have ij: "i < j" by simp
      have "score (priority (cand ! i)) \<le> score (priority (cand ! j))"
        using p by (intro mono) simp
      moreover have "score (priority (cand ! j)) \<le> score (priority (cand ! i))"
        using 2 j by simp
      ultimately show "i < j \<and> score (priority (cand ! j)) = score (priority (cand ! i))"
        using ij by simp
    qed
    from 1 2 3 4 5 i(1) len show ?thesis by auto
  qed
  have empty: "cand = [] \<longrightarrow> select_tip c s now label conf events = None" by (simp add: sel)
  have all: "1 \<le> boost \<and> 0 < w \<and>
       (\<forall>p q. p \<le> q \<longrightarrow> score p \<le> score q) \<and>
       (cand = [] \<longrightarrow> select_tip c s now label conf events = None) \<and>
       (cand \<noteq> [] \<longrightarrow>
          (\<exists>i < length cand.
             select_tip c s now label conf events = Some (tip_text (cand ! i)) \<and>
             (\<forall>j < length cand. score (priority (cand ! j)) \<le> score (priority (cand ! i))) \<and>
             (\<forall>j < i. score (priority (cand ! j)) < score (priority (cand ! i))) \<and>
             (\<forall>j < i. priority (cand ! j) < priority (cand ! i)) \<and>
             (\<forall>j < length cand. priority (cand ! i) < priority (cand ! j) \<longrightarrow>
                i < j \<and> score (priority (cand ! j)) = score (priority (cand ! i)))))"
    using b w mono empty nonempty by blast
  then show "let cand = filter_candidates c s now (get_tips_for_label (tips s) label);
        boost = calculate_event_boost_fl label events;
        w = time_weight now (dict_get (label_last_tip s) label 0);
        score = composite_score conf boost w
    in 1 \<le> boost \<and> 0 < w \<and>
       (\<forall>p q. p \<le> q \<longrightarrow> score p \<le> score q) \<and>
       (cand = [] \<longrightarrow> select_tip c s now label conf events = None) \<and>
       (cand \<noteq> [] \<longrightarrow>
          (\<exists>i < length cand.
             select_tip c s now label conf events = Some (tip_text (cand ! i)) \<and>
             (\<forall>j < length cand. score (priority (cand ! j)) \<le> score (priority (cand ! i))) \<and>
             (\<forall>j < i. score (priority (cand ! j)) < score (priority (cand ! i))) \<and>
             (\<forall>j < i. priority (cand ! j) < priority (cand ! i)) \<and>
             (\<forall>j < length cand. priority (cand ! i) < priority (cand ! j) \<longrightarrow>
                i < j \<and> score (priority (cand ! j)) = score (priority (cand ! i)))))"
    unfolding Let_def cand_def boost_def w_def score_def .
qed

text \<open>
  Two surviving candidates of equal priority: the one listed first is selected.
\<close>

theorem C10_priority_ranking_witness:
  "select_tip default_config (server_fresh [tip_explore, tip_second]) 1000 ''exploring'' 0.6 [] =
     Some (tip_text tip_explore)"
proof -
  let ?s = "server_fresh [tip_explore, tip_second]"
  let ?cs = "[tip_explore, tip_second]"
  have cand:
    "filter_candidates default_config ?s 1000 (get_tips_for_label (tips ?s) ''exploring'') = ?cs"
    by (simp add: filter_candidates_def get_tips_for_label_def server_fresh_def new_server_def
        dict_get_def default_config_def tip_explore_def tip_second_def)
  have p: "priority tip_explore = 5" "priority tip_second = 5"
    by (simp_all add: tip_explore_def tip_second_def)
  have pos: "(0::real) < 0.6" by simp
  have ne: "?cs \<noteq> []" by simp
  note t = C10_priority_ranking [of "0.6" default_config "?s" 1000 "''exploring''" "[]",
      unfolded Let_def cand, THEN mp, OF pos]
  with ne have "\<exists>i < length ?cs.
      select_tip default_config ?s 1000 ''exploring'' 0.6 [] = Some (tip_text (?cs ! i)) \<and>
      (\<forall>j < i. priority (?cs ! j) < priority (?cs ! i))"
    by blast
  then obtain i where i: "i < length ?cs"
    "select_tip default_config ?s 1000 ''exploring'' 0.6 [] = Some (tip_text (?cs ! i))"
    "\<forall>j < i. priority (?cs ! j) < priority (?cs ! i)"
    by blast
  have "i = 0"
  proof (rule ccontr)
    assume "i \<noteq> 0"
    with i(1) have i1: "i = 1" by simp
    from i(3) \<open>i \<noteq> 0\<close> have "priority (?cs ! 0) < priority (?cs ! i)" by blast
    with i1 p show False by simp
  qed
  with i(2) show ?thesis by simp
qed

text \<open>
  C10 as stated fails where rounding makes two scores equal. The candidates
  \<open>tip_low\<close> and \<open>tip_high\<close> both survive the filter, \<open>tip_high\<close> has the larger
  priority, and with the confidence 0.6, no events and no earlier dispatch both scores
  are the double 0.765: the stable sort keeps \<open>tip_low\<close> first and its text is selected.
\<close>

lemma tie_scores:
  "time_weight 1000 0 = 3 / 4"
  "composite_score double_0_6 1 (3 / 4) (priority tip_low) =
     6890507429876859 / 9007199254740992"
  "composite_score double_0_6 1 (3 / 4) (priority tip_high) =
     6890507429876859 / 9007199254740992"
proof -
  show "time_weight 1000 0 = 3 / 4"
    by (simp add: time_weight_def fl_sub_def fl_div_def fl_mul_def rnd_1000 rnd_fixed)
  have lo: "double_0_6 * priority tip_low =
      41376115591449405052764608748585 / 40564819207303340847894502572032"
    by (simp add: double_0_6_def tip_low_def)
  have hi: "double_0_6 * priority tip_high =
      10344028897862352614271040398295 / 10141204801825835211973625643008"
    by (simp add: double_0_6_def tip_high_def)
  have w: "(2296835809958953 / 2251799813685248) * (3 / 4) =
      (6890507429876859 / 9007199254740992 :: real)"
    by simp
  show "composite_score double_0_6 1 (3 / 4) (priority tip_low) =
     6890507429876859 / 9007199254740992"
    unfolding composite_score_def fl_mul_def lo rnd_tie_low mult_1_right rnd_tie_same w
    by (rule rnd_tie_weighted)
  show "composite_score double_0_6 1 (3 / 4) (priority tip_high) =
     6890507429876859 / 9007199254740992"
    unfolding composite_score_def fl_mul_def hi rnd_tie_high mult_1_right rnd_tie_same w
    by (rule rnd_tie_weighted)
qed

theorem C10_counterexample:
  "0 < double_0_6 \<and>
   filter_candidates default_config (server_fresh [tip_low, tip_high]) 1000
     (get_tips_for_label (tips (server_fresh [tip_low, tip_high])) ''exploring'') =
     [tip_low, tip_high] \<and>
   priority tip_low < priority tip_high \<and>
   select_tip default_config (server_fresh [tip_low, tip_high]) 1000 ''exploring'' double_0_6 [] =
     Some (tip_text tip_low)"
proof -
  let ?s = "server_fresh [tip_low, tip_high]"
  have cand:
    "filter_candidates default_config ?s 1000 (get_tips_for_label (tips ?s) ''exploring'') =
       [tip_low, tip_high]"
    by (simp add: filter_candidates_def get_tips_for_label_def server_fresh_def new_server_def
        dict_get_def default_config_def tip_low_def tip_high_def)
  have boost: "calculate_event_boost_fl ''exploring'' [] = 1"
    by (simp add: calculate_event_boost_fl_def)
  have prev: "dict_get (label_last_tip ?s) ''exploring'' 0 = 0"
    by (simp add: server_fresh_def new_server_def dict_get_def)
  have sel: "select_tip default_config ?s 1000 ''exploring'' double_0_6 [] = Some (tip_text tip_low)"
    unfolding select_tip_scored cand boost prev tie_scores(1)
    by (simp add: tie_scores(2,3) sort_desc_def)
  have "priority tip_low < priority tip_high" by (simp add: tip_low_def tip_high_def)
  moreover have "0 < double_0_6" by (simp add: double_0_6_def)
  ultimately show ?thesis using cand sel by simp
qed

subsection \<open>The paths of one cycle\<close>




lemma select_single:
  assumes "tips s label = Some [cd]" "spoiler_level cd \<le> MAX_SPOILER_LEVEL c"
  shows "select_tip c s now label conf events =
     (if now - dict_get (tip_last_shown s) (tip_text cd) 0 \<ge> real_of_int (TIP_COOLDOWN_SECONDS c)
      then Some (tip_text cd) else None)"
  using assms
  by (simp add: select_tip_def filter_candidates_def get_tips_for_label_def dict_get_def Let_def
      sort_desc_single)

lemma predict_quiet:
  assumes "learned w st = None" "health st = Some 20" "hunger st = Some 20"
    "isNight st = Some False" "logs st = Some 5" "pos_y st = Some 64"
    "blockUnderCrosshair st = Some ''stone''"
  shows "\<exists>d. predict_label_and_confidence (learned w) st [] = (''exploring'', 0.6, d)"
  using assms by (simp add: predict_label_and_confidence_def rules_eq ladder_quiet)

lemma after_post_frame:
  "last_state (snd (after_post w now ns label tip u r s)) = last_state s"
  "recent_events (snd (after_post w now ns label tip u r s)) = recent_events s"
  "tips (snd (after_post w now ns label tip u r s)) = tips s"
  "rag (snd (after_post w now ns label tip u r s)) = rag s"
  "label_acceptance (snd (after_post w now ns label tip u r s)) = label_acceptance s"
  by (simp_all add: after_post_def save_state_def Let_def split: write_outcome.splits)


text \<open>One cycle on the quiet snapshot with a single candidate for exploring.\<close>

lemma quiet_cycle:
  assumes st: "last_state s = Some st" "recent_events s = []" "learned w st = None"
    "health st = Some 20" "hunger st = Some 20" "isNight st = Some False" "logs st = Some 5"
    "pos_y st = Some 64" "blockUnderCrosshair st = Some ''stone''"
    and c: "cfg w = default_config"
    and t: "tips s ''exploring'' = Some [cd]" "spoiler_level cd = 0"
  shows "process_state w clk s =
     (if t_select clk - dict_get (tip_last_shown s) (tip_text cd) 0 < 180 then (None, s)
      else if tip_text cd = [] then (None, s)
      else if \<not> check_cooldowns default_config s (t_check clk) ''exploring'' then (None, s)
      else if str_in ''{recipe}'' (tip_text cd)
      then (case paraphrase_tip_with_recipe (genv w) (sdk_installed w) (gemini_sdk w)
                   (tip_text cd) ''exploring'' (rag s) 150 of
              Inl err \<Rightarrow> (Some err, s)
            | Inr tip' \<Rightarrow>
                if post_tip (sink w) tip'
                then after_post w (t_post clk) (t_save clk) ''exploring'' tip' 1
                       (case timestamp st of None \<Rightarrow> ''unknown'' | Some r \<Rightarrow> r) s
                else (None, s))
      else if post_tip (sink w) (tip_text cd)
      then after_post w (t_post clk) (t_save clk) ''exploring'' (tip_text cd) 0
             (case timestamp st of None \<Rightarrow> ''unknown'' | Some r \<Rightarrow> r) s
      else (None, s))"
    and "cycle_of w clk s =
     (if t_select clk - dict_get (tip_last_shown s) (tip_text cd) 0 < 180 then Inr Suppressed
      else if tip_text cd = [] then Inr Suppressed
      else if \<not> check_cooldowns default_config s (t_check clk) ''exploring'' then Inr Rejected
      else if str_in ''{recipe}'' (tip_text cd)
      then (case paraphrase_tip_with_recipe (genv w) (sdk_installed w) (gemini_sdk w)
                   (tip_text cd) ''exploring'' (rag s) 150 of
              Inl err \<Rightarrow> Inl err
            | Inr tip' \<Rightarrow> Inr (if post_tip (sink w) tip' then Dispatched else DispatchFailed))
      else Inr (if post_tip (sink w) (tip_text cd) then Dispatched else DispatchFailed))"
proof -
  from predict_quiet [OF st(3-9)] obtain d where
    p: "predict_label_and_confidence (learned w) st [] = (''exploring'', 0.6, d)" by blast
  have sp: "spoiler_level cd \<le> MAX_SPOILER_LEVEL default_config"
    using t(2) by (simp add: default_config_def)
  note sel = select_single [OF t(1) sp]
  have th: "CONF_THRESHOLD default_config = 0.6" "real_of_int (TIP_COOLDOWN_SECONDS default_config) = 180"
    by (simp_all add: default_config_def)
  show "process_state w clk s =
     (if t_select clk - dict_get (tip_last_shown s) (tip_text cd) 0 < 180 then (None, s)
      else if tip_text cd = [] then (None, s)
      else if \<not> check_cooldowns default_config s (t_check clk) ''exploring'' then (None, s)
      else if str_in ''{recipe}'' (tip_text cd)
      then (case paraphrase_tip_with_recipe (genv w) (sdk_installed w) (gemini_sdk w)
                   (tip_text cd) ''exploring'' (rag s) 150 of
              Inl err \<Rightarrow> (Some err, s)
            | Inr tip' \<Rightarrow>
                if post_tip (sink w) tip'
                then after_post w (t_post clk) (t_save clk) ''exploring'' tip' 1
                       (case timestamp st of None \<Rightarrow> ''unknown'' | Some r \<Rightarrow> r) s
                else (None, s))
      else if post_tip (sink w) (tip_text cd)
      then after_post w (t_post clk) (t_save clk) ''exploring'' (tip_text cd) 0
             (case timestamp st of None \<Rightarrow> ''unknown'' | Some r \<Rightarrow> r) s
      else (None, s))"
    by (simp add: process_state_def st(1,2) c p sel th Let_def not_le)
  show "cycle_of w clk s =
     (if t_select clk - dict_get (tip_last_shown s) (tip_text cd) 0 < 180 then Inr Suppressed
      else if tip_text cd = [] then Inr Suppressed
      else if \<not> check_cooldowns default_config s (t_check clk) ''exploring'' then Inr Rejected
      else if str_in ''{recipe}'' (tip_text cd)
      then (case paraphrase_tip_with_recipe (genv w) (sdk_installed w) (gemini_sdk w)
                   (tip_text cd) ''exploring'' (rag s) 150 of
              Inl err \<Rightarrow> Inl err
            | Inr tip' \<Rightarrow> Inr (if post_tip (sink w) tip' then Dispatched else DispatchFailed))
      else Inr (if post_tip (sink w) (tip_text cd) then Dispatched else DispatchFailed))"
    by (simp add: cycle_of_def st(1,2) c p sel th Let_def not_le)
qed

subsection \<open>C5: a failed dispatch changes nothing\<close>

lemma explore_plain:
  "str_in ''{recipe}'' (tip_text tip_explore) = False" "tip_text tip_explore \<noteq> []"
  "spoiler_level tip_explore = 0"
  unfolding tip_explore_def by (code_simp, simp, simp)

lemma server_fresh_fields:
  "last_state (server_fresh cs) = Some snap_quiet" "recent_events (server_fresh cs) = []"
  "tips (server_fresh cs) ''exploring'' = Some cs" "last_tip_timestamp (server_fresh cs) = 0"
  "label_last_tip (server_fresh cs) = Map.empty" "tip_last_shown (server_fresh cs) = Map.empty"
  "rag (server_fresh cs) = False" "decisions_csv (server_fresh cs) = []"
  "state_file (server_fresh cs) = []"
  by (simp_all add: server_fresh_def new_server_def)

lemma snap_quiet_fields:
  "health snap_quiet = Some 20" "hunger snap_quiet = Some 20" "isNight snap_quiet = Some False"
  "logs snap_quiet = Some 5" "pos_y snap_quiet = Some 64"
  "blockUnderCrosshair snap_quiet = Some ''stone''" "timestamp snap_quiet = None"
  by (simp_all add: snap_quiet_def)

lemma clock_at_fields:
  "t_select (clock_at t) = t" "t_check (clock_at t) = t" "t_post (clock_at t) = t"
  "t_save (clock_at t) = t"
  by (simp_all add: clock_at_def)





subsection \<open>C7: the end-to-end scenario\<close>

text \<open>Two cycles on the quiet snapshot, the second one second after the dispatch.\<close>

lemma quiet_two_cycles:
  assumes st: "health st = Some 20" "hunger st = Some 20" "isNight st = Some False"
    "logs st = Some 5" "pos_y st = Some 64" "blockUnderCrosshair st = Some ''stone''"
    and w: "cfg w = default_config" "learned w st = None" "sink w txt = Some 200"
    and s: "last_state s = Some st" "recent_events s = []"
      "tips s ''exploring'' = Some [\<lparr>tip_text = txt, spoiler_level = 0, priority = 5\<rparr>]"
      "last_tip_timestamp s = 0" "label_last_tip s = Map.empty" "tip_last_shown s = Map.empty"
    and tx: "txt \<noteq> []" "\<not> str_in ''{recipe}'' txt"
    and t1: "180 \<le> t_select c1" "30 \<le> t_check c1"
    and t2: "t_select c2 = t_post c1 + 1"
  shows "label_conf (predict_label_and_confidence (learned w) st []) = (''exploring'', 0.6)"
    and "cycle_of w c1 s = Inr Dispatched"
    and "last_tip (snd (process_state w c1 s)) = Some txt"
    and "last_tip_timestamp (snd (process_state w c1 s)) = t_post c1"
    and "select_tip (cfg w) (snd (process_state w c1 s)) (t_select c2) ''exploring'' 0.6 [] = None"
    and "cycle_of w c2 (snd (process_state w c1 s)) = Inr Suppressed"
    and "process_state w c2 (snd (process_state w c1 s)) = (None, snd (process_state w c1 s))"
    and "\<not> check_cooldowns (cfg w) (snd (process_state w c1 s)) (t_post c1 + 1) ''exploring''"
proof -
  let ?cd = "\<lparr>tip_text = txt, spoiler_level = 0, priority = 5\<rparr>"
  let ?ref = "case timestamp st of None \<Rightarrow> ''unknown'' | Some r \<Rightarrow> r"
  have cd: "spoiler_level ?cd = 0" "tip_text ?cd = txt" by simp_all
  from predict_quiet [OF w(2) st] show
    "label_conf (predict_label_and_confidence (learned w) st []) = (''exploring'', 0.6)"
    by (auto simp: label_conf_def)
  note q1 = quiet_cycle [OF s(1,2) w(2) st w(1) s(3) cd(1), of c1]
  have cc: "check_cooldowns default_config s (t_check c1) ''exploring''"
    using t1 by (simp add: check_cooldowns_iff s default_config_def dict_get_def)
  have pt: "post_tip (sink w) txt" by (simp add: post_tip_def w(3))
  have sel1: "\<not> t_select c1 - dict_get (tip_last_shown s) txt 0 < 180"
    using t1 by (simp add: s dict_get_def)
  show c1: "cycle_of w c1 s = Inr Dispatched"
    by (simp add: q1(2) sel1 tx cc pt)
  have p1: "process_state w c1 s = after_post w (t_post c1) (t_save c1) ''exploring'' txt 0 ?ref s"
    by (simp add: q1(1) sel1 tx cc pt)
  let ?s1 = "snd (process_state w c1 s)"
  show "last_tip ?s1 = Some txt" by (simp add: p1 after_post_ledgers)
  show "last_tip_timestamp ?s1 = t_post c1" by (simp add: p1 after_post_ledgers)
  have s1: "last_state ?s1 = Some st" "recent_events ?s1 = []"
    "tips ?s1 ''exploring'' = Some [?cd]"
    by (simp_all add: p1 after_post_frame s)
  have shown: "dict_get (tip_last_shown ?s1) txt 0 = t_post c1"
    by (simp add: p1 after_post_ledgers dict_get_def)
  note q2 = quiet_cycle [OF s1(1,2) w(2) st w(1) s1(3) cd(1), of c2]
  have sel2: "t_select c2 - dict_get (tip_last_shown ?s1) txt 0 < 180"
    by (simp add: shown t2)
  show "cycle_of w c2 ?s1 = Inr Suppressed"
    using sel2 by (simp add: q2(2))
  show "process_state w c2 ?s1 = (None, ?s1)"
    using sel2 by (simp add: q2(1))
  have sp: "spoiler_level ?cd \<le> MAX_SPOILER_LEVEL default_config"
    by (simp add: default_config_def)
  show "select_tip (cfg w) ?s1 (t_select c2) ''exploring'' 0.6 [] = None"
  proof -
    have tc: "real_of_int (TIP_COOLDOWN_SECONDS default_config) = 180"
      by (simp add: default_config_def)
    from sel2 show ?thesis by (simp add: w(1) select_single [OF s1(3) sp] tc)
  qed
  show "\<not> check_cooldowns (cfg w) ?s1 (t_post c1 + 1) ''exploring''"
    by (simp add: w(1) check_cooldowns_iff p1 after_post_ledgers default_config_def)
qed

text \<open>
  C7, as the code has it. With the default configuration and the rule strategy, the
  snapshot \<^verbatim>\<open>{health:20, hunger:20, isNight:false, logs:5, y:64, focus:"stone"}\<close> with no
  events is classified \<^verbatim>\<open>exploring\<close> with confidence 0.60. With exactly one candidate
  for \<^verbatim>\<open>exploring\<close>, of priority 5 and spoiler level 0, whose text is not empty and has
  no \<^verbatim>\<open>{recipe}\<close> placeholder, no prior dispatch, clock readings past the cooldowns
  and a sink that answers 200, the cycle dispatches that candidate. A second cycle one
  second after the dispatch, on the same input, dispatches nothing and leaves the server
  unchanged: the only candidate is inside its per-candidate cooldown, the scorer has no
  winner and the cycle is Suppressed. The global cooldown is active at that time too, but
  the admission check is not reached.
\<close>

theorem C7_end_to_end:
  "health st = Some 20 \<and> hunger st = Some 20 \<and> isNight st = Some False \<and> logs st = Some 5 \<and>
   pos_y st = Some 64 \<and> blockUnderCrosshair st = Some ''stone'' \<and>
   cfg w = default_config \<and> learned w st = None \<and> sink w txt = Some 200 \<and>
   last_state s = Some st \<and> recent_events s = [] \<and>
   tips s ''exploring'' = Some [\<lparr>tip_text = txt, spoiler_level = 0, priority = 5\<rparr>] \<and>
   last_tip_timestamp s = 0 \<and> label_last_tip s = Map.empty \<and> tip_last_shown s = Map.empty \<and>
   txt \<noteq> [] \<and> \<not> str_in ''{recipe}'' txt \<and>
   180 \<le> t_select c1 \<and> 30 \<le> t_check c1 \<and> t_select c2 = t_post c1 + 1 \<longrightarrow>
   label_conf (predict_label_and_confidence (learned w) st []) = (''exploring'', 0.6) \<and>
   cycle_of w c1 s = Inr Dispatched \<and>
   last_tip (snd (process_state w c1 s)) = Some txt \<and>
   last_tip_timestamp (snd (process_state w c1 s)) = t_post c1 \<and>
   select_tip (cfg w) (snd (process_state w c1 s)) (t_select c2) ''exploring'' 0.6 [] = None \<and>
   cycle_of w c2 (snd (process_state w c1 s)) = Inr Suppressed \<and>
   process_state w c2 (snd (process_state w c1 s)) = (None, snd (process_state w c1 s)) \<and>
   \<not> check_cooldowns (cfg w) (snd (process_state w c1 s)) (t_post c1 + 1) ''exploring''"
proof (intro impI, elim conjE)
  assume a: "health st = Some 20" "hunger st = Some 20" "isNight st = Some False"
    "logs st = Some 5" "pos_y st = Some 64" "blockUnderCrosshair st = Some ''stone''"
    "cfg w = default_config" "learned w st = None" "sink w txt = Some 200"
    "last_state s = Some st" "recent_events s = []"
    "tips s ''exploring'' = Some [\<lparr>tip_text = txt, spoiler_level = 0, priority = 5\<rparr>]"
    "last_tip_timestamp s = 0" "label_last_tip s = Map.empty" "tip_last_shown s = Map.empty"
    "txt \<noteq> []" "\<not> str_in ''{recipe}'' txt"
    "180 \<le> t_select c1" "30 \<le> t_check c1" "t_select c2 = t_post c1 + 1"
  note q = quiet_two_cycles [OF a]
  from q(1) q(2) q(3) q(4) q(5) q(6) q(7) q(8)
  show "label_conf (predict_label_and_confidence (learned w) st []) = (''exploring'', 0.6) \<and>
   cycle_of w c1 s = Inr Dispatched \<and>
   last_tip (snd (process_state w c1 s)) = Some txt \<and>
   last_tip_timestamp (snd (process_state w c1 s)) = t_post c1 \<and>
   select_tip (cfg w) (snd (process_state w c1 s)) (t_select c2) ''exploring'' 0.6 [] = None \<and>
   cycle_of w c2 (snd (process_state w c1 s)) = Inr Suppressed \<and>
   process_state w c2 (snd (process_state w c1 s)) = (None, snd (process_state w c1 s)) \<and>
   \<not> check_cooldowns (cfg w) (snd (process_state w c1 s)) (t_post c1 + 1) ''exploring''"
    by blast
qed

lemma fresh_explore_two_cycles:
  "cycle_of world_ok (clock_at 1000) (server_fresh [tip_explore]) = Inr Dispatched"
  "cycle_of world_ok (clock_at 1001)
     (snd (process_state world_ok (clock_at 1000) (server_fresh [tip_explore]))) = Inr Suppressed"
  "process_state world_ok (clock_at 1001)
     (snd (process_state world_ok (clock_at 1000) (server_fresh [tip_explore]))) =
   (None, snd (process_state world_ok (clock_at 1000) (server_fresh [tip_explore])))"
proof -
  have w: "cfg world_ok = default_config" "learned world_ok snap_quiet = None"
    "sink world_ok (tip_text tip_explore) = Some 200"
    by (simp_all add: world_ok_def)
  have t: "tips (server_fresh [tip_explore]) ''exploring'' =
      Some [\<lparr>tip_text = tip_text tip_explore, spoiler_level = 0, priority = 5\<rparr>]"
    by (simp add: server_fresh_fields tip_explore_def)
  have x: "\<not> str_in ''{recipe}'' (tip_text tip_explore)" by (simp add: explore_plain)
  have c: "180 \<le> t_select (clock_at 1000)" "30 \<le> t_check (clock_at 1000)"
    "t_select (clock_at 1001) = t_post (clock_at 1000) + 1"
    by (simp_all add: clock_at_fields)
  note q = quiet_two_cycles [OF snap_quiet_fields(1-6) w server_fresh_fields(1,2) t
      server_fresh_fields(4,5,6) explore_plain(2) x c]
  from q(2) show "cycle_of world_ok (clock_at 1000) (server_fresh [tip_explore]) = Inr Dispatched" .
  from q(6) show "cycle_of world_ok (clock_at 1001)
     (snd (process_state world_ok (clock_at 1000) (server_fresh [tip_explore]))) = Inr Suppressed" .
  from q(7) show "process_state world_ok (clock_at 1001)
     (snd (process_state world_ok (clock_at 1000) (server_fresh [tip_explore]))) =
   (None, snd (process_state world_ok (clock_at 1000) (server_fresh [tip_explore])))" .
qed

text \<open>
  C7 as stated fails on the candidate of the built-in stub: the first cycle at time 1000
  dispatches it, and the cycle at time 1001 is Suppressed (no winner), not Rejected.
\<close>

theorem C7_counterexample:
  "cycle_of world_ok (clock_at 1000) (server_fresh [tip_explore]) = Inr Dispatched \<and>
   cycle_of world_ok (clock_at 1001)
     (snd (process_state world_ok (clock_at 1000) (server_fresh [tip_explore]))) = Inr Suppressed \<and>
   cycle_of world_ok (clock_at 1001)
     (snd (process_state world_ok (clock_at 1000) (server_fresh [tip_explore]))) \<noteq> Inr Rejected"
  by (simp add: fresh_explore_two_cycles)

text \<open>The scenario of C7 at the times 1000 and 1001.\<close>

theorem C7_end_to_end_witness:
  "cycle_of world_ok (clock_at 1000) (server_fresh [tip_explore]) = Inr Dispatched \<and>
   last_tip (snd (process_state world_ok (clock_at 1000) (server_fresh [tip_explore]))) =
     Some (tip_text tip_explore) \<and>
   process_state world_ok (clock_at 1001)
     (snd (process_state world_ok (clock_at 1000) (server_fresh [tip_explore]))) =
   (None, snd (process_state world_ok (clock_at 1000) (server_fresh [tip_explore])))"
proof -
  have w: "cfg world_ok = default_config" "learned world_ok snap_quiet = None"
    "sink world_ok (tip_text tip_explore) = Some 200"
    by (simp_all add: world_ok_def)
  have t: "tips (server_fresh [tip_explore]) ''exploring'' =
      Some [\<lparr>tip_text = tip_text tip_explore, spoiler_level = 0, priority = 5\<rparr>]"
    by (simp add: server_fresh_fields tip_explore_def)
  have x: "\<not> str_in ''{recipe}'' (tip_text tip_explore)" by (simp add: explore_plain)
  have c: "180 \<le> t_select (clock_at 1000)" "30 \<le> t_check (clock_at 1000)"
    "t_select (clock_at 1001) = t_post (clock_at 1000) + 1"
    by (simp_all add: clock_at_fields)
  from C7_end_to_end [of snap_quiet world_ok "tip_text tip_explore" "server_fresh [tip_explore]"
      "clock_at 1000" "clock_at 1001"]
    snap_quiet_fields(1-6) w server_fresh_fields(1,2,4,5,6) t explore_plain(2) x c
  show ?thesis by simp
qed

subsection \<open>C6: per-candidate suppression\<close>

lemma recipe_placeholder:
  "str_in ''{recipe}'' (tip_text tip_recipe) = True" "tip_text tip_recipe \<noteq> []"
  "spoiler_level tip_recipe = 0"
  unfolding tip_recipe_def by (code_simp, simp, simp)

lemma recipe_replaced:
  "replace (tip_text tip_recipe) ''{recipe}'' ''[recipe not available]'' =
     ''Try crafting: [recipe not available]''"
  unfolding tip_recipe_def by code_simp

lemma fresh_recipe_cycle:
  "cycle_of world_ok (clock_at 1000) (server_fresh [tip_recipe]) = Inr Dispatched"
  "process_state world_ok (clock_at 1000) (server_fresh [tip_recipe]) =
     after_post world_ok 1000 1000 ''exploring'' ''Try crafting: [recipe not available]'' 1
       ''unknown'' (server_fresh [tip_recipe])"
proof -
  have w: "cfg world_ok = default_config" "learned world_ok snap_quiet = None"
    "post_tip (sink world_ok) m" for m
    by (simp_all add: world_ok_def post_tip_def)
  note q = quiet_cycle [OF server_fresh_fields(1,2) w(2) snap_quiet_fields(1-6) w(1)
      server_fresh_fields(3) recipe_placeholder(3), of "clock_at 1000"]
  have cc: "check_cooldowns default_config (server_fresh [tip_recipe]) 1000 ''exploring''"
    by (simp add: check_cooldowns_iff server_fresh_fields default_config_def dict_get_def)
  have p: "paraphrase_tip_with_recipe (genv world_ok) (sdk_installed world_ok) (gemini_sdk world_ok)
      (tip_text tip_recipe) ''exploring'' False 150 =
      Inr ''Try crafting: [recipe not available]''"
    by (simp add: paraphrase_tip_with_recipe_def recipe_replaced)
  show "cycle_of world_ok (clock_at 1000) (server_fresh [tip_recipe]) = Inr Dispatched"
    by (simp add: q(2) clock_at_fields server_fresh_fields dict_get_def recipe_placeholder cc p w(3))
  show "process_state world_ok (clock_at 1000) (server_fresh [tip_recipe]) =
     after_post world_ok 1000 1000 ''exploring'' ''Try crafting: [recipe not available]'' 1
       ''unknown'' (server_fresh [tip_recipe])"
    by (simp add: q(1) clock_at_fields server_fresh_fields dict_get_def recipe_placeholder cc p
        w(3) snap_quiet_fields)
qed

text \<open>
  C6 fails for a candidate whose text holds the \<^verbatim>\<open>{recipe}\<close> placeholder.
  \<^verbatim>\<open>_process_state\<close> overwrites \<^verbatim>\<open>tip\<close> with the paraphrased text before it calls
  \<^verbatim>\<open>_after_post\<close>, so the per-candidate ledger is keyed by the paraphrase and the
  candidate's own text never enters it: dispatched at time 1000, the candidate is still
  in the filtered set at time 1001, 179 seconds before its cooldown ends.
\<close>

theorem C6_recipe_candidate_not_suppressed:
  "cycle_of world_ok (clock_at 1000) (server_fresh [tip_recipe]) = Inr Dispatched \<and>
   last_tip (snd (process_state world_ok (clock_at 1000) (server_fresh [tip_recipe]))) =
     Some ''Try crafting: [recipe not available]'' \<and>
   tip_last_shown (snd (process_state world_ok (clock_at 1000) (server_fresh [tip_recipe])))
     (tip_text tip_recipe) = None \<and>
   filter_candidates default_config
     (snd (process_state world_ok (clock_at 1000) (server_fresh [tip_recipe]))) 1001
     (get_tips_for_label
        (tips (snd (process_state world_ok (clock_at 1000) (server_fresh [tip_recipe]))))
        ''exploring'') = [tip_recipe]"
proof -
  have ne: "tip_text tip_recipe \<noteq> ''Try crafting: [recipe not available]''"
    by (simp add: tip_recipe_def)
  have sp: "spoiler_level tip_recipe \<le> MAX_SPOILER_LEVEL default_config"
    "real_of_int (TIP_COOLDOWN_SECONDS default_config) = 180"
    by (simp_all add: tip_recipe_def default_config_def)
  show ?thesis
    using ne sp
    by (simp add: fresh_recipe_cycle after_post_ledgers after_post_frame server_fresh_fields
        filter_candidates_def get_tips_for_label_def dict_get_def)
qed

text \<open>
  What holds: a candidate whose text is the text handed to \<^verbatim>\<open>_after_post\<close> at time
  \<open>T\<close> is outside the filtered set at every time before \<open>T + tipCooldownSeconds\<close>,
  whatever the other ledgers hold.
\<close>

lemma dispatched_candidate_suppressed:
  assumes "now < T + real_of_int (TIP_COOLDOWN_SECONDS c)" "tip_text cd = tip"
  shows "cd \<notin> set (filter_candidates c (snd (after_post w T Ts label tip u r s)) now all_tips)"
  using assms by (simp add: filter_candidates_def after_post_ledgers dict_get_def)

subsection \<open>C8: the persisted state\<close>

lemma save_state_documents:
  "state_write w = Written \<Longrightarrow>
   \<exists>d. state_file (save_state w now s) = Document d # state_file s \<and>
       documents d (save_state w now s) \<and> doc_last_save d = Some now"
  by (simp add: save_state_def documents_def)











subsection \<open>C9: the formatter\<close>

lemma gemini_config_unset: "gemini_config env_unset = Inr None"
  by (simp add: gemini_config_def env_unset_def getenv_def lower_def lower_char_def Let_def)

lemma trim_short_cap: "trim ''abcdefgh'' 2 = ''abcdefg...''"
  by code_simp

lemma gemini_config_bad_temperature: "gemini_config env_bad_temperature = Inl ValueError"
  by (simp add: gemini_config_def env_bad_temperature_def env_unset_def Let_def)

text \<open>
  C9 fails for the caps 1 and 2: \<^verbatim>\<open>text[:max_length - 3]\<close> is then a slice with a
  negative end, which drops one or two characters from the end instead of cutting at the
  cap. With Gemini disabled, the query \<^verbatim>\<open>abcdefgh\<close>, no snippets and the cap 2 the
  formatter returns the 10 characters \<^verbatim>\<open>abcdefg...\<close>. It also raises
  \<^verbatim>\<open>ValueError\<close> when \<^verbatim>\<open>GEMINI_TEMPERATURE\<close> is not a number, whatever the other
  variables hold.
\<close>

theorem C9_cap_exceeded:
  "paraphrase_with_context env_unset False (\<lambda>_ _ _. None) ''abcdefgh'' [] 2 None =
     Inr ''abcdefg...'' \<and>
   length ''abcdefg...'' = 10 \<and>
   paraphrase_with_context env_bad_temperature False (\<lambda>_ _ _. None) ''abcdefgh'' [] 150 None =
     Inl ValueError"
  by (simp add: paraphrase_with_context_def gemini_config_unset stub_def trim_short_cap
      gemini_config_bad_temperature)

text \<open>What holds: from the cap 3 on, the trimmed text is within the cap.\<close>

lemma length_rstrip: "length (rstrip s) \<le> length s"
  unfolding rstrip_def using length_dropWhile_le [of isspace "rev s"] by simp

lemma trim_length:
  assumes "3 \<le> m"
  shows "int (length (trim t m)) \<le> m"
proof (cases "int (length (strip t)) > m")
  case True
  have "length (rstrip (slice_to (strip t) (m - 3))) \<le> length (slice_to (strip t) (m - 3))"
    by (rule length_rstrip)
  also have "\<dots> \<le> nat (m - 3)" using assms by (simp add: slice_to_def)
  finally have "int (length (rstrip (slice_to (strip t) (m - 3)))) \<le> m - 3" using assms by simp
  with True assms show ?thesis by (simp add: trim_def Let_def)
next
  case False
  with assms show ?thesis by (simp add: trim_def Let_def)
qed

lemma paraphrase_fallback:
  "gemini_config env = Inr None \<Longrightarrow>
   paraphrase_with_context env sdk g query docs m p = Inr (stub query docs m)"
  "gemini_config env = Inr (Some cf) \<Longrightarrow> \<not> sdk \<Longrightarrow>
   paraphrase_with_context env sdk g query docs m p = Inr (stub query docs m)"
  "gemini_config env = Inr (Some cf) \<Longrightarrow> sdk \<Longrightarrow> (\<And>a b. g cf a b = None) \<Longrightarrow>
   paraphrase_with_context env sdk g query docs m p = Inr (stub query docs m)"
  by (simp_all add: paraphrase_with_context_def Let_def)

end
